theory Spec2Isabelle
  imports Complex_Main "HOL-Library.Word"
begin

section \<open>JavaScript strings\<close>

text \<open>
  A JavaScript string is a sequence of UTF-16 code units; \<open>length\<close>, \<open>startsWith\<close>,
  \<open>substring\<close>, \<open>trim\<close> and a regular expression without the \<open>u\<close> flag all work on
  code units.  \<open>str\<close> writes an ASCII literal of the source as such a sequence.
\<close>

type_synonym jschar = "16 word"
type_synonym jsstring = "jschar list"

definition str :: "string \<Rightarrow> jsstring" where
  "str s = map of_char s"

text \<open>\<open>s.startsWith(p)\<close>.\<close>

definition startsWith :: "jsstring \<Rightarrow> jsstring \<Rightarrow> bool" where
  "startsWith s p = (take (length p) s = p)"

text \<open>
  \<open>String.prototype.trim\<close> removes the WhiteSpace and LineTerminator code points of
  ECMAScript from both ends: TAB, LF, VT, FF, CR, SP, NBSP, U+1680, U+2000 to U+200A,
  U+2028, U+2029, U+202F, U+205F, U+3000 and U+FEFF.
\<close>

definition isTrimmed :: "jschar \<Rightarrow> bool" where
  "isTrimmed c =
     ((0x0009 \<le> c \<and> c \<le> 0x000D) \<or> c = 0x0020 \<or> c = 0x00A0 \<or> c = 0x1680 \<or>
      (0x2000 \<le> c \<and> c \<le> 0x200A) \<or> c = 0x2028 \<or> c = 0x2029 \<or> c = 0x202F \<or>
      c = 0x205F \<or> c = 0x3000 \<or> c = 0xFEFF)"

definition trim :: "jsstring \<Rightarrow> jsstring" where
  "trim s = rev (dropWhile isTrimmed (rev (dropWhile isTrimmed s)))"

section \<open>The capability registry (ApiHolder)\<close>

text \<open>
  What a provider's \<open>search\<close> promise does for a query: it rejects (or the call throws),
  it resolves with an array, or it resolves with something that is not an array.
\<close>

datatype 'r outcome = Rejects | Resolves "'r list" | ResolvesOther

text \<open>
  A \<open>MainAPI\<close> object.  \<open>ident\<close> is the identity of the object (its reference): the
  source compares handles with \<open>!==\<close>, and two distinct objects may carry the same
  fields.  A function-valued property that is missing (or falsy) is \<open>None\<close>.  The
  capability flags of the interface play no part in the registry, the loader or the
  orchestrator and are left out.
\<close>

record ('r, 'l) MainAPI =
  ident :: nat
  name :: jsstring
  mainUrl :: jsstring
  search :: "(jsstring \<Rightarrow> 'r outcome) option"
  quickSearch :: "(jsstring \<Rightarrow> 'r outcome) option"
  load :: "(jsstring \<Rightarrow> 'l option) option"

text \<open>The registry's state is the private array \<open>apis\<close>, initially empty.\<close>

type_synonym ('r, 'l) ApiHolder = "('r, 'l) MainAPI list"

definition removePlugin :: "('r, 'l) MainAPI \<Rightarrow> ('r, 'l) ApiHolder \<Rightarrow> ('r, 'l) ApiHolder" where
  "removePlugin plugin apis = filter (\<lambda>p. ident p \<noteq> ident plugin) apis"

definition addPlugin :: "('r, 'l) MainAPI \<Rightarrow> ('r, 'l) ApiHolder \<Rightarrow> ('r, 'l) ApiHolder" where
  "addPlugin plugin apis =
     (case find (\<lambda>api. name api = name plugin) apis of
        Some existing \<Rightarrow> removePlugin existing apis
      | None \<Rightarrow> apis) @ [plugin]"

definition getApi :: "jsstring \<Rightarrow> ('r, 'l) ApiHolder \<Rightarrow> ('r, 'l) MainAPI option" where
  "getApi n apis = find (\<lambda>api. name api = n) apis"

definition getAllApis :: "('r, 'l) ApiHolder \<Rightarrow> ('r, 'l) MainAPI list" where
  "getAllApis apis = apis"

text \<open>A sequence of register and unregister calls, run from the empty registry.\<close>

datatype ('r, 'l) registryOp = Register "('r, 'l) MainAPI" | Unregister "('r, 'l) MainAPI"

fun applyOp :: "('r, 'l) ApiHolder \<Rightarrow> ('r, 'l) registryOp \<Rightarrow> ('r, 'l) ApiHolder" where
  "applyOp apis (Register p) = addPlugin p apis"
| "applyOp apis (Unregister p) = removePlugin p apis"

definition runOps :: "('r, 'l) registryOp list \<Rightarrow> ('r, 'l) ApiHolder" where
  "runOps ops = foldl applyOp [] ops"

section \<open>The round-robin merge of runSearch\<close>

text \<open>
  One pass of the \<open>for\<close> loop over \<open>allLists\<close> at a fixed \<open>index\<close>: every list longer
  than \<open>index\<close> pushes its element at \<open>index\<close> and counts in \<open>added\<close>.
\<close>

definition mergePass :: "'r list list \<Rightarrow> nat \<Rightarrow> 'r list \<Rightarrow> 'r list \<times> nat" where
  "mergePass allLists index merged =
     foldl (\<lambda>(m, added) list.
              if length list > index then (m @ [list ! index], added + 1) else (m, added))
           (merged, 0) allLists"

definition maxLength :: "'r list list \<Rightarrow> nat" where
  "maxLength ls = foldr (\<lambda>l n. max (length l) n) ls 0"

lemma length_le_maxLength: "l \<in> set ls \<Longrightarrow> length l \<le> maxLength ls"
  by (induction ls) (auto simp: maxLength_def)

lemma mergePass_foldl:
  "foldl (\<lambda>(m, added) list.
            if length list > index then (m @ [list ! index], added + 1) else (m, added))
         (merged, k) ls =
   (merged @ map (\<lambda>l. l ! index) (filter (\<lambda>l. index < length l) ls),
    k + length (filter (\<lambda>l. index < length l) ls))"
  by (induction ls arbitrary: merged k) auto

lemma mergePass_eq:
  "mergePass ls index merged =
   (merged @ map (\<lambda>l. l ! index) (filter (\<lambda>l. index < length l) ls),
    length (filter (\<lambda>l. index < length l) ls))"
  by (simp add: mergePass_def mergePass_foldl)

lemma mergePass_added_less:
  assumes "mergePass ls index merged = (m, added)" and "added \<noteq> 0"
  shows "index < maxLength ls"
proof -
  from assms have "filter (\<lambda>l. index < length l) ls \<noteq> []"
    by (auto simp: mergePass_eq)
  then obtain l where "l \<in> set ls" and "index < length l"
    by (metis (mono_tags, lifting) filter_False)
  with length_le_maxLength [of l ls] show ?thesis by simp
qed

text \<open>The \<open>while (true)\<close> loop: it stops at the first index at which no list adds.\<close>

function mergeLoop :: "'r list list \<Rightarrow> nat \<Rightarrow> 'r list \<Rightarrow> 'r list" where
  "mergeLoop allLists index merged =
     (case mergePass allLists index merged of
        (merged', added) \<Rightarrow>
          if added = 0 then merged' else mergeLoop allLists (index + 1) merged')"
  by pat_completeness auto
termination
proof (relation "measure (\<lambda>(allLists, index, merged). maxLength allLists - index)")
  show "wf (measure (\<lambda>(allLists, index, merged). maxLength allLists - index))"
    by simp
next
  fix allLists :: "'r list list" and index :: nat and merged x :: "'r list" and added :: nat
  assume "(x, added) = mergePass allLists index merged" and "added \<noteq> 0"
  then have "index < maxLength allLists"
    using mergePass_added_less [of allLists index merged x added] by simp
  then show "((allLists, index + 1, x), (allLists, index, merged))
      \<in> measure (\<lambda>(allLists, index, merged). maxLength allLists - index)"
    by simp
qed

declare mergeLoop.simps [simp del]

definition mergeResults :: "'r list list \<Rightarrow> 'r list" where
  "mergeResults allLists = mergeLoop allLists 0 []"

text \<open>
  The round-robin interleave in the specification's words: index 0 of every list that
  still has an element there, then index 1, and so on up to the longest list.
\<close>

definition takeIndex :: "nat \<Rightarrow> 'r list list \<Rightarrow> 'r list" where
  "takeIndex i ls = map (\<lambda>l. l ! i) (filter (\<lambda>l. i < length l) ls)"

definition roundRobin :: "'r list list \<Rightarrow> 'r list" where
  "roundRobin ls = concat (map (\<lambda>i. takeIndex i ls) [0..<maxLength ls])"

section \<open>The per-provider record of runSearch\<close>

text \<open>
  \<open>perProviderResults\<close> is an ordinary JavaScript object used as a dictionary.  It is
  modelled as the list of its own properties in creation order, with distinct keys.
  An assignment \<open>obj[k] = v\<close> overwrites an existing property in place and otherwise
  appends a new one; the key \<open>__proto__\<close> reaches the prototype setter and creates no
  own property.
\<close>

type_synonym 'v jsobject = "(jsstring \<times> 'v) list"

fun assign :: "'v jsobject \<Rightarrow> jsstring \<Rightarrow> 'v \<Rightarrow> 'v jsobject" where
  "assign [] k v = [(k, v)]"
| "assign ((k', v') # obj) k v = (if k' = k then (k, v) # obj else (k', v') # assign obj k v)"

definition setProperty :: "'v jsobject \<Rightarrow> jsstring \<Rightarrow> 'v \<Rightarrow> 'v jsobject" where
  "setProperty obj k v = (if k = str ''__proto__'' then obj else assign obj k v)"

text \<open>
  \<open>Object.values\<close> lists the values in own-property-key order: the keys that are array
  indices (canonical decimal numerals below \<open>2^32 - 1\<close>) first, in ascending numeric
  order, then every other string key in creation order.
\<close>

definition isDigit :: "jschar \<Rightarrow> bool" where
  "isDigit c = (0x30 \<le> c \<and> c \<le> 0x39)"

definition digitsValue :: "jsstring \<Rightarrow> nat" where
  "digitsValue k = foldl (\<lambda>n c. 10 * n + (unat c - 48)) 0 k"

definition isArrayIndex :: "jsstring \<Rightarrow> bool" where
  "isArrayIndex k =
     (k \<noteq> [] \<and> list_all isDigit k \<and> (k = [0x30] \<or> take 1 k \<noteq> [0x30]) \<and>
      digitsValue k < 2 ^ 32 - 1)"

definition objectValues :: "'v jsobject \<Rightarrow> 'v list" where
  "objectValues obj =
     map snd (sort_key (\<lambda>(k, v). digitsValue k) (filter (\<lambda>(k, v). isArrayIndex k) obj) @
              filter (\<lambda>(k, v). \<not> isArrayIndex k) obj)"

section \<open>The search orchestrator (runSearch)\<close>

datatype searchStatus = Idle | Loading | Success | Error

record 'r SearchResultState =
  status :: searchStatus
  query :: jsstring
  mergedResults :: "'r list"
  perProviderResults :: "'r list jsobject"
  error :: "jsstring option"

text \<open>\<open>SearchOptions\<close>: both fields are optional and default to \<open>[]\<close> and \<open>false\<close>.\<close>

record SearchOptions =
  activeProviders :: "jsstring list option"
  quick :: "bool option"

text \<open>
  What runSearch reads from outside: the registry, the order in which the providers'
  search promises settle (the callbacks of \<open>Promise.all\<close> write into
  \<open>perProviderResults\<close> in that order), and what \<open>stremioService.search\<close> does.
\<close>

record ('r, 'l) searchEnv =
  registry :: "('r, 'l) ApiHolder"
  settle :: "('r, 'l) MainAPI list \<Rightarrow> ('r, 'l) MainAPI list"
  stremioSearch :: "jsstring \<Rightarrow> 'r outcome"

text \<open>The search calls runSearch makes, in the order it starts them.\<close>

datatype searchCall = ProviderCall nat jsstring | StremioCall jsstring

definition searchFn :: "bool \<Rightarrow> ('r, 'l) MainAPI \<Rightarrow> (jsstring \<Rightarrow> 'r outcome) option" where
  "searchFn quickMode provider = (if quickMode then quickSearch provider else search provider)"

text \<open>
  The body of the per-provider callback once its promise has settled: an array is stored
  under the provider's name (an empty one too), a rejection is caught and logged, anything
  else is dropped.
\<close>

definition providerStep ::
  "bool \<Rightarrow> jsstring \<Rightarrow> 'r list jsobject \<Rightarrow> ('r, 'l) MainAPI \<Rightarrow> 'r list jsobject" where
  "providerStep quickMode trimmed perProvider provider =
     (case searchFn quickMode provider of
        None \<Rightarrow> perProvider
      | Some f \<Rightarrow>
          (case f trimmed of
             Resolves results \<Rightarrow> setProperty perProvider (name provider) results
           | Rejects \<Rightarrow> perProvider
           | ResolvesOther \<Rightarrow> perProvider))"

definition stremioStep :: "'r outcome \<Rightarrow> 'r list jsobject \<Rightarrow> 'r list jsobject" where
  "stremioStep res perProvider =
     (case res of
        Resolves stremioResults \<Rightarrow>
          if length stremioResults > 0
          then setProperty perProvider (str ''stremio'') stremioResults
          else perProvider
      | Rejects \<Rightarrow> perProvider
      | ResolvesOther \<Rightarrow> perProvider)"

definition selectProviders :: "jsstring list \<Rightarrow> ('r, 'l) MainAPI list \<Rightarrow> ('r, 'l) MainAPI list" where
  "selectProviders active all =
     filter (\<lambda>p. if length active = 0 then True else name p \<in> set active) all"

text \<open>
  runSearch returns the state it resolves with and the search calls it made.  Nothing in
  the body of the outer \<open>try\<close> throws in this model (every provider call and the Stremio
  call sit in a \<open>try\<close> of their own), so the \<open>error\<close> status of the outer \<open>catch\<close> is
  never produced.
\<close>

definition runSearch ::
  "('r, 'l) searchEnv \<Rightarrow> jsstring \<Rightarrow> SearchOptions \<Rightarrow> 'r SearchResultState \<times> searchCall list" where
  "runSearch env q options =
     (let trimmed = trim q in
      if length trimmed \<le> 1
      then (\<lparr>status = Idle, query = trimmed, mergedResults = [],
             perProviderResults = [], error = None\<rparr>, [])
      else
        let active = (case activeProviders options of None \<Rightarrow> [] | Some a \<Rightarrow> a);
            quickMode = (case quick options of None \<Rightarrow> False | Some b \<Rightarrow> b);
            providers = selectProviders active (getAllApis (registry env));
            calls = map (\<lambda>p. ProviderCall (ident p) trimmed)
                      (filter (\<lambda>p. searchFn quickMode p \<noteq> None) providers);
            perProvider = foldl (providerStep quickMode trimmed) [] (settle env providers);
            perProvider' = stremioStep (stremioSearch env trimmed) perProvider;
            allLists = objectValues perProvider'
        in (\<lparr>status = Success, query = trimmed, mergedResults = mergeResults allLists,
             perProviderResults = perProvider', error = None\<rparr>,
            calls @ [StremioCall trimmed]))"

text \<open>
  What the per-provider record ends up holding, in the words of the specification: a
  provider contributes its list when its search resolved with an array and nothing
  otherwise; Stremio contributes a non-empty list under the key \<open>stremio\<close>.
\<close>

definition recorded :: "bool \<Rightarrow> jsstring \<Rightarrow> ('r, 'l) MainAPI \<Rightarrow> (jsstring \<times> 'r list) option" where
  "recorded quickMode trimmed p =
     (case searchFn quickMode p of
        None \<Rightarrow> None
      | Some f \<Rightarrow> (case f trimmed of Resolves rs \<Rightarrow> Some (name p, rs) | Rejects \<Rightarrow> None | ResolvesOther \<Rightarrow> None))"

definition stremioEntry :: "'r outcome \<Rightarrow> (jsstring \<times> 'r list) list" where
  "stremioEntry res =
     (case res of Resolves rs \<Rightarrow> if rs = [] then [] else [(str ''stremio'', rs)]
      | Rejects \<Rightarrow> [] | ResolvesOther \<Rightarrow> [])"

definition objectOf :: "(jsstring \<times> 'v) list \<Rightarrow> 'v jsobject" where
  "objectOf entries = foldl (\<lambda>obj (k, v). setProperty obj k v) [] entries"

definition plainKey :: "jsstring \<Rightarrow> bool" where
  "plainKey k = (k \<noteq> str ''__proto__'' \<and> \<not> isArrayIndex k)"

text \<open>Concrete providers, environments and options for the examples.\<close>

definition provider :: "nat \<Rightarrow> string \<Rightarrow> nat outcome \<Rightarrow> (nat, nat) MainAPI" where
  "provider i n res =
     \<lparr>ident = i, name = str n, mainUrl = [], search = Some (\<lambda>q. res),
      quickSearch = Some (\<lambda>q. res), load = Some (\<lambda>u. None)\<rparr>"

definition exampleEnv :: "(nat, nat) MainAPI list \<Rightarrow> nat outcome \<Rightarrow> (nat, nat) searchEnv" where
  "exampleEnv ps st = \<lparr>registry = ps, settle = (\<lambda>ps. ps), stremioSearch = (\<lambda>q. st)\<rparr>"

definition defaultOptions :: SearchOptions where
  "defaultOptions = \<lparr>activeProviders = None, quick = None\<rparr>"

section \<open>JavaScript numbers: finite doubles and their division\<close>

text \<open>
  A finite IEEE 754 double is an integer significand times a power of two:
  \<open>Double m e\<close> stands for \<open>m * 2^e\<close>, and its value is an exact real number.  (The sign
  of a zero is not represented; the code modelled here divides by positive numbers
  only.)  The result of a division can also be an infinity or \<open>NaN\<close>.
\<close>

datatype double = Double int int

datatype jsnumber = NaN | PosInfinity | NegInfinity | Number double

definition pow2 :: "int \<Rightarrow> real" where
  "pow2 e = (if 0 \<le> e then 2 ^ nat e else 1 / 2 ^ nat (- e))"

fun valueOf :: "double \<Rightarrow> real" where
  "valueOf (Double m e) = of_int m * pow2 e"

text \<open>The number of binary digits of a positive integer.\<close>

function bitLength :: "int \<Rightarrow> int" where
  "bitLength n = (if n \<le> 0 then 0 else 1 + bitLength (n div 2))"
  by pat_completeness auto
termination
  by (relation "measure nat") auto

declare bitLength.simps [simp del]

text \<open>For positive \<open>p\<close> and \<open>q\<close>, the integer \<open>x\<close> with \<open>2^x \<le> p / q < 2^(x + 1)\<close>.\<close>

definition floorLog2 :: "int \<Rightarrow> int \<Rightarrow> int" where
  "floorLog2 p q =
     (let d = bitLength p - bitLength q
      in if (if 0 \<le> d then q * 2 ^ nat d \<le> p else q \<le> p * 2 ^ nat (- d)) then d else d - 1)"

text \<open>
  The double nearest to \<open>(p / q) * 2^s\<close> for positive \<open>p\<close> and \<open>q\<close>, as IEEE 754 division
  rounds: to the nearest multiple of the unit in the last place \<open>2^u\<close> (53 significant
  bits, and \<open>u\<close> at least \<open>-1074\<close> in the subnormal range), a tie going to the even
  significand; \<open>None\<close> when the rounded value reaches \<open>2^1024\<close> and the quotient overflows.
\<close>

definition roundQuotient :: "int \<Rightarrow> int \<Rightarrow> int \<Rightarrow> double option" where
  "roundQuotient p q s =
     (let u = max (floorLog2 p q + s - 52) (- 1074);
          k = s - u;
          num = (if 0 \<le> k then p * 2 ^ nat k else p);
          den = (if 0 \<le> k then q else q * 2 ^ nat (- k));
          n = num div den;
          r = num mod den;
          n' = (if 2 * r < den then n else if den < 2 * r then n + 1
                else if even n then n else n + 1)
      in if 971 \<le> u \<and> 2 ^ 53 \<le> n' * 2 ^ nat (u - 971) then None
         else Some (Double n' u))"

text \<open>The operator \<open>/\<close> on two finite doubles.\<close>

fun jsDivide :: "double \<Rightarrow> double \<Rightarrow> jsnumber" where
  "jsDivide (Double m1 e1) (Double m2 e2) =
     (if m2 = 0 then (if m1 = 0 then NaN else if 0 < m1 then PosInfinity else NegInfinity)
      else if m1 = 0 then Number (Double 0 0)
      else
        (case roundQuotient \<bar>m1\<bar> \<bar>m2\<bar> (e1 - e2) of
           None \<Rightarrow> if (m1 < 0) = (m2 < 0) then PosInfinity else NegInfinity
         | Some (Double m e) \<Rightarrow>
             Number (Double (if (m1 < 0) = (m2 < 0) then m else - m) e)))"

declare jsDivide.simps [simp del]

text \<open>
  The operators \<open>>\<close> and \<open><=\<close> between a number and a finite double: both are false
  when the number is \<open>NaN\<close>.
\<close>

fun jsGreater :: "jsnumber \<Rightarrow> double \<Rightarrow> bool" where
  "jsGreater NaN c = False"
| "jsGreater PosInfinity c = True"
| "jsGreater NegInfinity c = False"
| "jsGreater (Number x) c = (valueOf x > valueOf c)"

fun jsLessEq :: "jsnumber \<Rightarrow> double \<Rightarrow> bool" where
  "jsLessEq NaN c = False"
| "jsLessEq PosInfinity c = False"
| "jsLessEq NegInfinity c = True"
| "jsLessEq (Number x) c = (valueOf x \<le> valueOf c)"

text \<open>
  The literal \<open>0.9\<close> is the double nearest to nine tenths, \<open>8106479329266893 * 2^-53\<close>
  (bit pattern \<open>3FECCCCCCCCCCCCD\<close>), slightly above nine tenths.
\<close>

definition literal09 :: double where
  "literal09 = Double 8106479329266893 (- 53)"

section \<open>The resume store: shouldResume\<close>

text \<open>
  \<open>ResumeData\<close>.  The entries that reach shouldResume are read back from JSON, which
  holds finite numbers only, so \<open>position\<close> and \<open>duration\<close> are finite doubles.  The
  comparisons with \<open>10\<close> and \<open>0\<close> are exact comparisons of values; the division is the
  rounded division of doubles, and its result is compared with the double \<open>0.9\<close>.
\<close>

record ResumeData =
  position :: double
  duration :: double
  lastUpdated :: int
  episodeUrl :: jsstring
  episodeName :: "jsstring option"

definition shouldResume :: "ResumeData option \<Rightarrow> bool" where
  "shouldResume resumeData =
     (case resumeData of
        None \<Rightarrow> False
      | Some d \<Rightarrow>
          if valueOf (position d) < 10 then False
          else if valueOf (duration d) > 0 \<and>
                  jsGreater (jsDivide (position d) (duration d)) literal09 then False
          else True)"

section \<open>Package classification: isBinary\<close>

text \<open>
  What \<open>downloadPlugin\<close> hands to the loader: a string, or an \<open>ArrayBuffer\<close> of bytes.
\<close>

datatype downloaded = Text jsstring | Buffer "8 word list"

datatype packageKind = ScriptedSource | ForeignBytecodeArchive

text \<open>
  \<open>String.fromCharCode\<close> gives one code unit per byte (\<open>codeUnits\<close>).  The source calls
  it with the whole buffer spread into its arguments, \<open>String.fromCharCode(...bytes)\<close>,
  and an engine accepts only so many arguments in one call: beyond its limit the call
  throws a \<open>RangeError\<close>, which is \<open>None\<close> here.  The limit is the engine's and is a
  parameter.
\<close>

definition codeUnits :: "8 word list \<Rightarrow> jsstring" where
  "codeUnits bytes = map ucast bytes"

definition fromCharCode :: "nat \<Rightarrow> 8 word list \<Rightarrow> jsstring option" where
  "fromCharCode limit bytes =
     (if limit < length bytes then None else Some (codeUnits bytes))"

text \<open>The character class \<open>[\x00-\x08\x0B-\x0C\x0E-\x1F\x7F-\x9F]\<close> of isBinary.\<close>

definition binaryChar :: "jschar \<Rightarrow> bool" where
  "binaryChar c =
     (c \<le> 0x08 \<or> (0x0B \<le> c \<and> c \<le> 0x0C) \<or> (0x0E \<le> c \<and> c \<le> 0x1F) \<or>
      (0x7F \<le> c \<and> c \<le> 0x9F))"

text \<open>
  The closure \<open>isBinary\<close> of loadPlugin, with the captured flag \<open>isBinaryFile\<close> as its
  first argument.  \<open>match\<close> with the \<open>g\<close> flag yields \<open>null\<close> when nothing matches and the
  array of matches otherwise.  The source compares \<open>binaryChars.length\<close> with
  \<open>first100.length * 0.1\<close> in double arithmetic; for the lengths that occur (at most
  100) that comparison has the same truth value as \<open>10 * count > length\<close> on integers, which
  is what the model writes.
\<close>

definition isBinary :: "bool \<Rightarrow> jsstring \<Rightarrow> bool" where
  "isBinary isBinaryFile text =
     (if isBinaryFile then True
      else if startsWith text (str ''PK'') then True
      else if startsWith text (str ''dex'' @ [0x0A]) then True
      else
        let first100 = take (min 100 (length text)) text;
            binaryChars = filter binaryChar first100
        in if binaryChars \<noteq> [] \<and> 10 * length binaryChars > length first100 then True
           else False)"

text \<open>
  How loadPlugin obtains \<open>code\<close> and \<open>isBinaryFile\<close>: from a fresh download (an
  \<open>ArrayBuffer\<close> is converted and marked binary, a string is taken as it is), or from the
  cache (marked binary when it starts with one of the two signatures).  The conversion
  of a buffer beyond the engine's limit throws, and nothing is classified: \<open>None\<close>.
\<close>

definition decodeDownloaded :: "nat \<Rightarrow> downloaded \<Rightarrow> (jsstring \<times> bool) option" where
  "decodeDownloaded limit d =
     (case d of
        Buffer bytes \<Rightarrow>
          (case fromCharCode limit bytes of
             None \<Rightarrow> None
           | Some code \<Rightarrow> Some (code, True))
      | Text t \<Rightarrow> Some (t, False))"

definition cachedIsBinaryFile :: "jsstring \<Rightarrow> bool" where
  "cachedIsBinaryFile code = (startsWith code (str ''PK'') \<or> startsWith code (str ''dex'' @ [0x0A]))"

text \<open>
  The package kind the loader acts on: loadPlugin takes the sidecar path exactly when
  \<open>isBinary(code)\<close> holds, and evaluates the code in process otherwise.
\<close>

definition kindOf :: "bool \<Rightarrow> jsstring \<Rightarrow> packageKind" where
  "kindOf isBinaryFile code =
     (if isBinary isBinaryFile code then ForeignBytecodeArchive else ScriptedSource)"

definition classifyDownloaded :: "nat \<Rightarrow> downloaded \<Rightarrow> packageKind option" where
  "classifyDownloaded limit d =
     (case decodeDownloaded limit d of
        None \<Rightarrow> None
      | Some (code, isBinaryFile) \<Rightarrow> Some (kindOf isBinaryFile code))"

definition classifyCached :: "jsstring \<Rightarrow> packageKind" where
  "classifyCached code = kindOf (cachedIsBinaryFile code) code"

text \<open>
  The control characters of Unicode (category Cc): U+0000 to U+001F and U+007F to
  U+009F.  The class of isBinary is this set without TAB, LF and CR.
\<close>

definition controlChar :: "jschar \<Rightarrow> bool" where
  "controlChar c = (c \<le> 0x1F \<or> (0x7F \<le> c \<and> c \<le> 0x9F))"

section \<open>repositoryService.downloadPlugin\<close>

text \<open>
  An HTTP response as downloadPlugin reads it: \<open>ok\<close>, the \<open>content-type\<close> header (if
  any) and the body.  \<open>s.includes(t)\<close> is containment of \<open>t\<close> as a contiguous substring.
\<close>

record response =
  ok :: bool
  contentType :: "jsstring option"
  body :: "8 word list"

fun includesStr :: "jsstring \<Rightarrow> jsstring \<Rightarrow> bool" where
  "includesStr [] t = (t = [])"
| "includesStr (c # s) t = (startsWith (c # s) t \<or> includesStr s t)"

definition binaryContentType :: "jsstring \<Rightarrow> bool" where
  "binaryContentType ct =
     (includesStr ct (str ''application/octet-stream'') \<or> includesStr ct (str ''application/zip'') \<or>
      includesStr ct (str ''application/x-dex''))"

section \<open>The plugin loader: data\<close>

text \<open>
  \<open>SitePlugin\<close> (the descriptor) with the fields the loader reads, \<open>PluginMetadata\<close> (the
  installed record), and the result of an install.  The free-form \<open>details\<close> of a
  \<open>PluginLoadError\<close> are left out.
\<close>

record SitePlugin =
  url :: jsstring
  version :: int
  name :: jsstring
  internalName :: jsstring

record PluginMetadata =
  internalName :: jsstring
  url :: jsstring
  version :: int
  repositoryUrl :: jsstring
  enabled :: bool

datatype stage = Download | Parse | Execute | Validate | Register

record PluginLoadError =
  message :: jsstring
  stage :: stage

record loadResult =
  success :: bool
  error :: "PluginLoadError option"

text \<open>
  The requests and executions the loader and the bridge client perform, in order:
  the HTTP fetch of a plugin URL, the call of the function built from plugin code, the
  health probe of the sidecar, the IPC call that saves a plugin file, and the
  \<open>POST /plugin/load\<close> request with its path, plugin id and repository URL.  No other
  request is made by the functions modelled here.
\<close>

datatype event =
    HttpGet jsstring
  | RunCode jsstring
  | BridgeHealth
  | SavePluginFile jsstring jsstring
  | BridgeLoad jsstring jsstring jsstring

text \<open>
  What evaluating plugin code gives: an exception with its message, or what the code
  left in \<open>module.exports\<close>.  Reading \<open>module.exports.default || module.exports\<close> then
  throws (the code set \<open>module.exports\<close> to \<open>null\<close> or \<open>undefined\<close>; the message is the
  engine's), or yields a value that is an object or not.  The properties of an exported
  object are taken to be plain ones, whose reading does not throw.
\<close>

datatype ('r, 'l) exported = ReadThrows jsstring | NotAnObject | Exported "('r, 'l) MainAPI"

datatype ('r, 'l) evaluation = Throws jsstring | Returns "('r, 'l) exported"

text \<open>
  \<open>window.electronAPI\<close>, when present: the three file operations of the main process.
  \<open>savePluginFile\<close> answers with the saved path, or fails.
\<close>

record electronAPI =
  getPluginPath :: "jsstring \<Rightarrow> jsstring \<Rightarrow> jsstring option"
  pluginFileExists :: "jsstring \<Rightarrow> jsstring \<Rightarrow> bool"
  savePluginFile :: "jsstring \<Rightarrow> jsstring \<Rightarrow> 8 word list \<Rightarrow> jsstring option"

text \<open>
  The outcome of \<open>POST /plugin/load\<close>: the fetch rejects with an \<open>AbortError\<close>; it fails
  otherwise (another rejection, a status that is not ok, a body that is not JSON); or
  the JSON body arrives with its \<open>success\<close> field.
\<close>

datatype postResult = PostAbortError | PostFailed | PostJson bool

text \<open>
  Everything outside the program: the network (\<open>fetchUrl\<close> is the response to the fetch
  that downloadPlugin issues for a plugin URL, after its rewriting of GitHub URLs;
  \<open>None\<close> when the fetch or the reading of the body rejects), the platform's text
  decoding, encoding and base64, the JavaScript engine (the most arguments it accepts in
  one call and the message of the \<open>RangeError\<close> it throws beyond that; what running
  plugin code gives, taken not to touch the loader's own state), the Electron main
  process and the sidecar.
\<close>

record ('r, 'l) env =
  fetchUrl :: "jsstring \<Rightarrow> response option"
  decodeText :: "8 word list \<Rightarrow> jsstring"
  encodeText :: "jsstring \<Rightarrow> 8 word list"
  btoa :: "jsstring \<Rightarrow> jsstring"
  spreadLimit :: nat
  spreadError :: jsstring
  runCode :: "jsstring \<Rightarrow> ('r, 'l) evaluation"
  electron :: "electronAPI option"
  postLoad :: "jsstring \<Rightarrow> jsstring \<Rightarrow> jsstring \<Rightarrow> postResult"
  postSearch :: "jsstring \<Rightarrow> jsstring \<Rightarrow> 'r outcome"
  postLoadContent :: "jsstring \<Rightarrow> jsstring \<Rightarrow> 'l option"

text \<open>
  The mutable state: the registry, the next fresh object identity, \<open>localStorage\<close>,
  the two fields of the bridge client, and the trace of events so far.  The value under
  the key \<open>cloudstream_plugins\<close> is kept as the array of records its JSON encodes, which
  is all the loader ever writes there; \<open>None\<close> stands for a missing key, an empty string
  and text that does not parse, which getStoredPlugins reads as the empty array alike.
  Every other key maps to its string.  Writes to \<open>localStorage\<close> are taken to succeed.
\<close>

record ('r, 'l) world =
  apis :: "('r, 'l) ApiHolder"
  nextIdent :: nat
  storedPlugins :: "PluginMetadata list option"
  localStorage :: "jsstring \<rightharpoonup> jsstring"
  isInitialized :: bool
  pluginInstances :: "jsstring list"
  trace :: "event list"

section \<open>The plugin loader: stored metadata and code\<close>

definition getStoredPlugins :: "('r, 'l) world \<Rightarrow> PluginMetadata list" where
  "getStoredPlugins w = (case storedPlugins w of None \<Rightarrow> [] | Some plugins \<Rightarrow> plugins)"

fun findIndex :: "('a \<Rightarrow> bool) \<Rightarrow> 'a list \<Rightarrow> nat option" where
  "findIndex P [] = None"
| "findIndex P (x # xs) = (if P x then Some 0 else map_option Suc (findIndex P xs))"

definition savePluginMetadata :: "PluginMetadata \<Rightarrow> ('r, 'l) world \<Rightarrow> ('r, 'l) world" where
  "savePluginMetadata plugin w =
     (let plugins = getStoredPlugins w;
          index = findIndex (\<lambda>p. PluginMetadata.internalName p = PluginMetadata.internalName plugin \<and>
                                   repositoryUrl p = repositoryUrl plugin) plugins
      in w\<lparr>storedPlugins :=
             Some (case index of Some i \<Rightarrow> plugins[i := plugin] | None \<Rightarrow> plugins @ [plugin])\<rparr>)"

definition codeKey :: "jsstring \<Rightarrow> jsstring \<Rightarrow> jsstring" where
  "codeKey pluginName repoUrl = str ''plugin_code_'' @ pluginName @ str ''_'' @ repoUrl"

definition storePluginCode :: "jsstring \<Rightarrow> jsstring \<Rightarrow> jsstring \<Rightarrow> ('r, 'l) world \<Rightarrow> ('r, 'l) world" where
  "storePluginCode pluginName repoUrl code w =
     w\<lparr>localStorage := (localStorage w)(codeKey pluginName repoUrl \<mapsto> code)\<rparr>"

definition getStoredPluginCode :: "jsstring \<Rightarrow> jsstring \<Rightarrow> ('r, 'l) world \<Rightarrow> jsstring option" where
  "getStoredPluginCode pluginName repoUrl w = localStorage w (codeKey pluginName repoUrl)"

section \<open>repositoryService.downloadPlugin and the bridge client\<close>

definition downloadPlugin ::
  "('r, 'l) env \<Rightarrow> jsstring \<Rightarrow> ('r, 'l) world \<Rightarrow> downloaded option \<times> ('r, 'l) world" where
  "downloadPlugin env pluginUrl w =
     (let w' = w\<lparr>trace := trace w @ [HttpGet pluginUrl]\<rparr> in
      case fetchUrl env pluginUrl of
        None \<Rightarrow> (None, w')
      | Some r \<Rightarrow>
          if \<not> ok r then (None, w')
          else if binaryContentType (case contentType r of None \<Rightarrow> [] | Some ct \<Rightarrow> ct)
          then (Some (Buffer (body r)), w')
          else (Some (Text (decodeText env (body r))), w'))"

definition initializeBridge :: "('r, 'l) world \<Rightarrow> ('r, 'l) world" where
  "initializeBridge w =
     (if isInitialized w then w
      else w\<lparr>trace := trace w @ [BridgeHealth], isInitialized := True\<rparr>)"

definition pluginKey :: "jsstring \<Rightarrow> jsstring \<Rightarrow> jsstring" where
  "pluginKey pluginName repoUrl = str ''plugin_'' @ pluginName @ str ''_'' @ repoUrl"

text \<open>
  \<open>JVMBridgeService.downloadPlugin\<close>: the path of the plugin file, or \<open>None\<close> when it
  throws (the download failed, the file could not be saved, or the spread call of the
  \<open>localStorage\<close> fallback met the engine's limit).
\<close>

definition bridgeDownloadPlugin ::
  "('r, 'l) env \<Rightarrow> SitePlugin \<Rightarrow> jsstring \<Rightarrow> ('r, 'l) world \<Rightarrow> jsstring option \<times> ('r, 'l) world" where
  "bridgeDownloadPlugin env plugin repoUrl w =
     (let pluginPath =
            (case electron env of
               Some api \<Rightarrow> getPluginPath api (SitePlugin.internalName plugin) repoUrl
             | None \<Rightarrow> None);
          present =
            (case pluginPath of
               None \<Rightarrow> False
             | Some path \<Rightarrow>
                 path \<noteq> [] \<and>
                 (case electron env of
                    Some api \<Rightarrow> pluginFileExists api (SitePlugin.internalName plugin) repoUrl
                  | None \<Rightarrow> False))
      in if present then (pluginPath, w)
         else
           (case downloadPlugin env (SitePlugin.url plugin) w of
              (None, w1) \<Rightarrow> (None, w1)
            | (Some pluginData, w1) \<Rightarrow>
                if pluginData = Text [] then (None, w1)
                else
                  (case electron env of
                     Some api \<Rightarrow>
                       (savePluginFile api (SitePlugin.internalName plugin) repoUrl
                          (case pluginData of Buffer b \<Rightarrow> b | Text t \<Rightarrow> encodeText env t),
                        w1\<lparr>trace := trace w1 @
                              [SavePluginFile (SitePlugin.internalName plugin) repoUrl]\<rparr>)
                   | None \<Rightarrow>
                       (case pluginData of
                          Buffer b \<Rightarrow>
                            (case fromCharCode (spreadLimit env) b of
                               None \<Rightarrow> (None, w1)
                             | Some binary \<Rightarrow>
                                 (Some (pluginKey (SitePlugin.internalName plugin) repoUrl),
                                  w1\<lparr>localStorage := (localStorage w1)
                                       (pluginKey (SitePlugin.internalName plugin) repoUrl \<mapsto>
                                          btoa env binary,
                                        pluginKey (SitePlugin.internalName plugin) repoUrl @
                                          str ''_type'' \<mapsto> str ''binary'')\<rparr>))
                        | Text t \<Rightarrow>
                            (Some (pluginKey (SitePlugin.internalName plugin) repoUrl),
                             w1\<lparr>localStorage := (localStorage w1)
                                  (pluginKey (SitePlugin.internalName plugin) repoUrl \<mapsto> t,
                                   pluginKey (SitePlugin.internalName plugin) repoUrl @
                                     str ''_type'' \<mapsto> str ''text'')\<rparr>)))))"

text \<open>
  \<open>JVMBridgeService.loadPlugin\<close>: it returns a boolean, or throws its one error (the
  request timed out).  initializeBridge always leaves \<open>isInitialized\<close> set, so the check
  after it never fires; an error thrown by the download is caught and gives \<open>false\<close>.
\<close>

datatype bridgeResult = BridgeTimedOut | BridgeReturns bool

definition bridgeLoadPlugin ::
  "('r, 'l) env \<Rightarrow> SitePlugin \<Rightarrow> jsstring \<Rightarrow> ('r, 'l) world \<Rightarrow> bridgeResult \<times> ('r, 'l) world" where
  "bridgeLoadPlugin env plugin repoUrl w =
     (let w1 = initializeBridge w in
      if \<not> isInitialized w1 then (BridgeReturns False, w1)
      else
        (case bridgeDownloadPlugin env plugin repoUrl w1 of
           (None, w2) \<Rightarrow> (BridgeReturns False, w2)
         | (Some filePath, w2) \<Rightarrow>
             (case postLoad env filePath (SitePlugin.internalName plugin) repoUrl of
                PostAbortError \<Rightarrow> BridgeTimedOut
              | PostFailed \<Rightarrow> BridgeReturns False
              | PostJson b \<Rightarrow> BridgeReturns b,
              w2\<lparr>trace := trace w2 @
                    [BridgeLoad filePath (SitePlugin.internalName plugin) repoUrl]\<rparr>)))"

text \<open>\<open>JVMBridgeService.search\<close> and \<open>load\<close>: every failure becomes \<open>[]\<close> or \<open>null\<close>.\<close>

definition bridgeSearch :: "('r, 'l) env \<Rightarrow> jsstring \<Rightarrow> jsstring \<Rightarrow> 'r outcome" where
  "bridgeSearch env pluginId q =
     (case postSearch env pluginId q of
        Rejects \<Rightarrow> Resolves []
      | Resolves results \<Rightarrow> Resolves results
      | ResolvesOther \<Rightarrow> ResolvesOther)"

definition bridgeLoad :: "('r, 'l) env \<Rightarrow> jsstring \<Rightarrow> jsstring \<Rightarrow> 'l option" where
  "bridgeLoad env pluginId u = postLoadContent env pluginId u"

text \<open>
  \<open>JVMBridgeService.unloadPlugin\<close>: it deletes the id from the client's own map and sends
  nothing to the sidecar (the source marks the unload in the JVM as still to do).
\<close>

definition bridgeUnloadPlugin :: "jsstring \<Rightarrow> ('r, 'l) world \<Rightarrow> ('r, 'l) world" where
  "bridgeUnloadPlugin pluginId w =
     w\<lparr>pluginInstances := filter (\<lambda>k. k \<noteq> pluginId) (pluginInstances w)\<rparr>"

section \<open>The plugin loader: loadPlugin, unloadPlugin, reloadPlugin\<close>

definition failure :: "stage \<Rightarrow> jsstring \<Rightarrow> loadResult" where
  "failure st msg = \<lparr>success = False, error = Some \<lparr>message = msg, stage = st\<rparr>\<rparr>"

text \<open>\<open>error?.message || 'Unknown error'\<close>.\<close>

definition orUnknown :: "jsstring \<Rightarrow> jsstring" where
  "orUnknown m = (if m = [] then str ''Unknown error'' else m)"

text \<open>
  The part of loadPlugin after \<open>code\<close> and \<open>isBinaryFile\<close> are known: the sidecar path
  for a binary package, the in-process evaluation otherwise.  The read of
  \<open>module.exports.default\<close> stands outside the inner \<open>try\<close>, so when it throws the outer
  \<open>catch\<close> of loadPlugin answers with a \<open>parse\<close> stage failure.  An object made by the
  loader or by plugin code gets a fresh identity.  addPlugin does not throw, so the
  \<open>register\<close> stage failure of the source is never produced.
\<close>

definition loadCode ::
  "('r, 'l) env \<Rightarrow> SitePlugin \<Rightarrow> jsstring \<Rightarrow> jsstring \<Rightarrow> bool \<Rightarrow> ('r, 'l) world \<Rightarrow>
   loadResult \<times> ('r, 'l) world" where
  "loadCode env plugin repoUrl code isBinaryFile w =
     (if isBinary isBinaryFile code then
        (case bridgeLoadPlugin env plugin repoUrl w of
           (BridgeReturns True, w1) \<Rightarrow>
             (let proxyApi =
                    \<lparr>ident = nextIdent w1,
                     MainAPI.name = SitePlugin.internalName plugin,
                     mainUrl = SitePlugin.url plugin,
                     search = Some (bridgeSearch env (SitePlugin.internalName plugin)),
                     quickSearch = Some (bridgeSearch env (SitePlugin.internalName plugin)),
                     load = Some (bridgeLoad env (SitePlugin.internalName plugin))\<rparr>;
                  w2 = w1\<lparr>apis := addPlugin proxyApi (apis w1), nextIdent := Suc (nextIdent w1)\<rparr>
              in (\<lparr>success = True, error = None\<rparr>,
                  savePluginMetadata
                    \<lparr>PluginMetadata.internalName = SitePlugin.internalName plugin,
                     url = SitePlugin.url plugin, version = SitePlugin.version plugin,
                     repositoryUrl = repoUrl, enabled = True\<rparr> w2))
         | (BridgeReturns False, w1) \<Rightarrow>
             (failure Parse (str (''Failed to load DEX plugin via JVM bridge. '' @
                                 ''JVM bridge may not be fully implemented yet.'')), w1)
         | (BridgeTimedOut, w1) \<Rightarrow>
             (failure Parse (str (''Error loading DEX plugin via JVM bridge: '' @
                ''JVM bridge request timed out. Make sure the bridge is running.'')), w1))
      else
        (let w1 = w\<lparr>trace := trace w @ [RunCode code]\<rparr> in
         case runCode env code of
           Throws m \<Rightarrow>
             (failure Execute (str ''Error executing plugin code: '' @ orUnknown m), w1)
         | Returns (ReadThrows m) \<Rightarrow>
             (failure Parse (str ''Unexpected error loading plugin: '' @ orUnknown m), w1)
         | Returns NotAnObject \<Rightarrow>
             (failure Validate (str ''Plugin '' @ SitePlugin.name plugin @
                str ('' did not export a valid MainAPI instance. '' @
                     ''Expected an object with search() and load() methods.'')), w1)
         | Returns (Exported inst) \<Rightarrow>
             if search inst = None \<or> load inst = None then
               (failure Validate (str ''Plugin '' @ SitePlugin.name plugin @
                  str ('' does not implement MainAPI interface. '' @
                       ''Missing search() or load() methods.'')), w1)
             else
               (let pluginInstance = inst\<lparr>ident := nextIdent w1\<rparr>;
                    w2 = w1\<lparr>apis := addPlugin pluginInstance (apis w1),
                            nextIdent := Suc (nextIdent w1)\<rparr>
                in (\<lparr>success = True, error = None\<rparr>,
                    savePluginMetadata
                      \<lparr>PluginMetadata.internalName = SitePlugin.internalName plugin,
                       url = SitePlugin.url plugin, version = SitePlugin.version plugin,
                       repositoryUrl = repoUrl, enabled = True\<rparr> w2))))"

text \<open>
  loadPlugin.  \<open>if (!code)\<close> holds for \<open>null\<close> and for the empty string alike, so a
  missing cache entry is read as the empty string; \<open>if (!downloaded)\<close> holds for \<open>null\<close>
  and for the empty string.  The outer \<open>catch\<close> answers with a \<open>parse\<close> stage failure
  when the conversion of a downloaded buffer throws (before anything is cached) and when
  the read of the exports throws (in loadCode).
\<close>

definition loadPlugin ::
  "('r, 'l) env \<Rightarrow> SitePlugin \<Rightarrow> jsstring \<Rightarrow> ('r, 'l) world \<Rightarrow> loadResult \<times> ('r, 'l) world" where
  "loadPlugin env plugin repoUrl w =
     (case getApi (SitePlugin.internalName plugin) (apis w) of
        Some existing \<Rightarrow> (\<lparr>success = True, error = None\<rparr>, w)
      | None \<Rightarrow>
          (let code =
                 (case getStoredPluginCode (SitePlugin.internalName plugin) repoUrl w of
                    None \<Rightarrow> []
                  | Some stored \<Rightarrow> stored)
           in if code = [] then
                (case downloadPlugin env (SitePlugin.url plugin) w of
                   (None, w1) \<Rightarrow>
                     (failure Download
                        (str ''Failed to download plugin from '' @ SitePlugin.url plugin), w1)
                 | (Some d, w1) \<Rightarrow>
                     if d = Text [] then
                       (failure Download
                          (str ''Failed to download plugin from '' @ SitePlugin.url plugin), w1)
                     else
                       (case decodeDownloaded (spreadLimit env) d of
                          None \<Rightarrow>
                            (failure Parse
                               (str ''Unexpected error loading plugin: '' @
                                orUnknown (spreadError env)), w1)
                        | Some (code, isBinaryFile) \<Rightarrow>
                            loadCode env plugin repoUrl code isBinaryFile
                              (storePluginCode (SitePlugin.internalName plugin) repoUrl code w1)))
              else loadCode env plugin repoUrl code (cachedIsBinaryFile code) w))"

text \<open>
  unloadPlugin.  It returns nothing and has no failing step: a missing record leaves
  everything as it is.  It never calls the bridge client.
\<close>

definition unloadPlugin :: "jsstring \<Rightarrow> ('r, 'l) world \<Rightarrow> ('r, 'l) world" where
  "unloadPlugin pluginName w =
     (case find (\<lambda>p. PluginMetadata.internalName p = pluginName) (getStoredPlugins w) of
        None \<Rightarrow> w
      | Some plugin \<Rightarrow>
          savePluginMetadata (plugin\<lparr>enabled := False\<rparr>)
            (case getApi pluginName (apis w) of
               Some api \<Rightarrow> w\<lparr>apis := removePlugin api (apis w)\<rparr>
             | None \<Rightarrow> w))"

definition reloadPlugin ::
  "('r, 'l) env \<Rightarrow> SitePlugin \<Rightarrow> jsstring \<Rightarrow> ('r, 'l) world \<Rightarrow> loadResult \<times> ('r, 'l) world" where
  "reloadPlugin env plugin repoUrl w =
     (let w1 = unloadPlugin (SitePlugin.internalName plugin) w
      in loadPlugin env plugin repoUrl
           (w1\<lparr>localStorage :=
                 (localStorage w1)(codeKey (SitePlugin.internalName plugin) repoUrl := None)\<rparr>))"

section \<open>Example descriptors, environments and states\<close>

text \<open>
  Concrete inputs for the examples below: a descriptor \<open>Demo\<close> at a given version, the
  object a scripted plugin exports, an Electron main process that already holds the
  plugin file, an environment answering every fetch with a given response, and some
  states.  \<open>staleWorld\<close> is the state after version 1 was installed from source text and
  uninstalled: its code is cached and its record is disabled.  With the Electron API
  present the \<open>localStorage\<close> fallback of the bridge client is not taken, so \<open>btoa\<close>
  plays no part in the examples.  The engine of the examples accepts 125257 arguments
  in one call.  \<open>twoRepoWorld\<close> is the state after the plugin was installed from one
  repository, uninstalled, and installed again from another repository.
\<close>

definition demoRepo :: jsstring where
  "demoRepo = str ''https://repo/repo.json''"

definition demoPlugin :: "int \<Rightarrow> SitePlugin" where
  "demoPlugin v =
     \<lparr>SitePlugin.url = str ''https://repo/demo.cs3'', version = v, name = str ''Demo plugin'',
      internalName = str ''Demo''\<rparr>"

definition demoApi :: "(nat, nat) MainAPI" where
  "demoApi =
     \<lparr>ident = 0, MainAPI.name = str ''Demo'', mainUrl = str ''https://demo'',
      search = Some (\<lambda>q. Resolves [1]), quickSearch = None, load = Some (\<lambda>u. None)\<rparr>"

definition demoElectron :: electronAPI where
  "demoElectron =
     \<lparr>getPluginPath = (\<lambda>i r. Some (str ''/plugins/'' @ i)),
      pluginFileExists = (\<lambda>i r. True),
      savePluginFile = (\<lambda>i r d. Some (str ''/plugins/'' @ i))\<rparr>"

definition demoEnv :: "response option \<Rightarrow> (nat, nat) env" where
  "demoEnv resp =
     \<lparr>fetchUrl = (\<lambda>u. resp), decodeText = codeUnits, encodeText = map ucast,
      btoa = (\<lambda>s. s), spreadLimit = 125257,
      spreadError = str ''Maximum call stack size exceeded'',
      runCode = (\<lambda>c. Returns (Exported demoApi)),
      electron = Some demoElectron, postLoad = (\<lambda>p i r. PostJson True),
      postSearch = (\<lambda>i q. Resolves []), postLoadContent = (\<lambda>i u. None)\<rparr>"

definition emptyWorld :: "(nat, nat) world" where
  "emptyWorld =
     \<lparr>apis = [], nextIdent = 0, storedPlugins = None, localStorage = Map.empty,
      isInitialized = False, pluginInstances = [], trace = []\<rparr>"

definition demoRecord :: "int \<Rightarrow> bool \<Rightarrow> PluginMetadata" where
  "demoRecord v e =
     \<lparr>PluginMetadata.internalName = str ''Demo'', url = str ''https://repo/demo.cs3'',
      version = v, repositoryUrl = demoRepo, enabled = e\<rparr>"

definition staleWorld :: "(nat, nat) world" where
  "staleWorld =
     emptyWorld\<lparr>storedPlugins := Some [demoRecord 1 False],
                localStorage := [codeKey (str ''Demo'') demoRepo \<mapsto> str ''exports.default = v1'']\<rparr>"

definition zipResponse :: response where
  "zipResponse = \<lparr>ok = True, contentType = Some (str ''application/zip''), body = [0x50, 0x4B, 0x03, 0x04]\<rparr>"

definition installedWorld :: "(nat, nat) world" where
  "installedWorld = emptyWorld\<lparr>apis := [demoApi], storedPlugins := Some [demoRecord 1 True]\<rparr>"

definition dexWorld :: "(nat, nat) world" where
  "dexWorld = snd (loadPlugin (demoEnv (Some zipResponse)) (demoPlugin 1) demoRepo emptyWorld)"

definition sourceResponse :: "jsstring \<Rightarrow> response" where
  "sourceResponse ct = \<lparr>ok = True, contentType = Some ct, body = [0x78, 0x3D, 0x31]\<rparr>"

definition plainEnv :: "response option \<Rightarrow> (nat, nat) env" where
  "plainEnv resp =
     \<lparr>fetchUrl = (\<lambda>u. resp), decodeText = codeUnits, encodeText = map ucast,
      btoa = (\<lambda>s. s), spreadLimit = 125257,
      spreadError = str ''Maximum call stack size exceeded'',
      runCode = (\<lambda>c. Returns NotAnObject),
      electron = None, postLoad = (\<lambda>p i r. PostJson True),
      postSearch = (\<lambda>i q. Resolves []), postLoadContent = (\<lambda>i u. None)\<rparr>"

definition otherRepo :: jsstring where
  "otherRepo = str ''https://other/repo.json''"

definition scriptEnv :: "(nat, nat) env" where
  "scriptEnv = demoEnv (Some (sourceResponse (str ''text/plain'')))"

definition twoRepoWorld :: "(nat, nat) world" where
  "twoRepoWorld =
     snd (loadPlugin scriptEnv (demoPlugin 1) otherRepo
            (unloadPlugin (str ''Demo'')
               (snd (loadPlugin scriptEnv (demoPlugin 1) demoRepo emptyWorld))))"

section \<open>The merge is the round-robin interleave\<close>

lemma mergeLoop_eq:
  "mergeLoop ls i m = m @ concat (map (\<lambda>j. takeIndex j ls) [i..<maxLength ls])"
proof (induction ls i m rule: mergeLoop.induct)
  case (1 allLists index merged)
  show ?case
  proof (cases "filter (\<lambda>l. index < length l) allLists = []")
    case True
    then have "\<forall>l \<in> set allLists. length l \<le> index"
      by (auto simp: filter_empty_conv)
    then have "maxLength allLists \<le> index"
      by (induction allLists) (auto simp: maxLength_def)
    with True show ?thesis
      by (subst mergeLoop.simps) (simp add: mergePass_eq)
  next
    case False
    then have lt: "index < maxLength allLists"
      using mergePass_added_less [of allLists index merged] by (simp add: mergePass_eq)
    have "mergeLoop allLists index merged =
          mergeLoop allLists (index + 1) (merged @ takeIndex index allLists)"
      using False by (subst mergeLoop.simps) (simp add: mergePass_eq takeIndex_def)
    also have "\<dots> = (merged @ takeIndex index allLists) @
        concat (map (\<lambda>j. takeIndex j allLists) [index + 1..<maxLength allLists])"
      using False "1.IH" [of "merged @ takeIndex index allLists" "length (filter (\<lambda>l. index < length l) allLists)"]
      by (simp add: mergePass_eq takeIndex_def)
    finally show ?thesis using lt by (simp add: upt_conv_Cons)
  qed
qed


lemma roundRobin_empty: "roundRobin (objectValues []) = []"
  by (simp add: roundRobin_def objectValues_def maxLength_def)

lemma mergeResults_roundRobin: "mergeResults ls = roundRobin ls"
  by (simp add: mergeResults_def roundRobin_def mergeLoop_eq)

text \<open>
  Claim C1.  For every family of per-provider result lists, the merged output of the
  loop of runSearch is the round-robin interleave: index 0 of every list that has one,
  then index 1, and so on until every list is exhausted; the \<open>mergedResults\<close> that
  runSearch returns are that interleave of the lists of its per-provider record.  For the lists \<open>[a1, a2]\<close>,
  \<open>[b1]\<close>, \<open>[c1, c2, c3]\<close> the output is \<open>[a1, b1, c1, a2, c2, c3]\<close>.
\<close>

theorem runSearch_merge_is_round_robin:
  "mergeResults allLists = roundRobin allLists \<and>
   mergedResults (fst (runSearch env q options)) =
     roundRobin (objectValues (perProviderResults (fst (runSearch env q options)))) \<and>
   mergeResults [[a1, a2], [b1], [c1, c2, c3]] = [a1, b1, c1, a2, c2, c3]"
proof -
  have "roundRobin [[a1, a2], [b1], [c1, c2, c3]] = [a1, b1, c1, a2, c2, c3]"
    by (simp add: roundRobin_def maxLength_def takeIndex_def upt_conv_Cons)
  then show ?thesis
    by (simp add: mergeResults_roundRobin runSearch_def Let_def roundRobin_empty)
qed

section \<open>The registry holds one handle per name\<close>

lemma removePlugin_distinct:
  "distinct (map MainAPI.name holder) \<Longrightarrow> distinct (map MainAPI.name (removePlugin p holder))"
  by (simp add: removePlugin_def distinct_map_filter)

lemma addPlugin_no_other:
  assumes "distinct (map MainAPI.name holder)"
  shows "filter (\<lambda>h. MainAPI.name h = MainAPI.name p) (addPlugin p holder) = [p]"
proof (cases "find (\<lambda>api. MainAPI.name api = MainAPI.name p) holder")
  case None
  then have "\<forall>h \<in> set holder. MainAPI.name h \<noteq> MainAPI.name p"
    by (simp add: find_None_iff)
  then have "filter (\<lambda>h. MainAPI.name h = MainAPI.name p) holder = []"
    by (simp add: filter_empty_conv)
  with None show ?thesis by (simp add: addPlugin_def)
next
  case (Some existing)
  then have ex: "existing \<in> set holder" "MainAPI.name existing = MainAPI.name p"
    by (auto simp: find_Some_iff)
  have "\<forall>h \<in> set (removePlugin existing holder). MainAPI.name h \<noteq> MainAPI.name p"
  proof
    fix h assume h: "h \<in> set (removePlugin existing holder)"
    then have "h \<in> set holder" and ne: "ident h \<noteq> ident existing"
      by (auto simp: removePlugin_def)
    show "MainAPI.name h \<noteq> MainAPI.name p"
    proof
      assume "MainAPI.name h = MainAPI.name p"
      with ex have "MainAPI.name h = MainAPI.name existing" by simp
      with assms \<open>h \<in> set holder\<close> ex(1) have "h = existing"
        by (meson distinct_map inj_onD)
      with ne show False by simp
    qed
  qed
  then have "filter (\<lambda>h. MainAPI.name h = MainAPI.name p) (removePlugin existing holder) = []"
    by (simp add: filter_empty_conv)
  with Some show ?thesis by (simp add: addPlugin_def)
qed

lemma addPlugin_distinct:
  assumes "distinct (map MainAPI.name holder)"
  shows "distinct (map MainAPI.name (addPlugin p holder))"
proof -
  let ?rest = "case find (\<lambda>api. MainAPI.name api = MainAPI.name p) holder of
        Some existing \<Rightarrow> removePlugin existing holder
      | None \<Rightarrow> holder"
  have d: "distinct (map MainAPI.name ?rest)"
    using assms by (simp add: removePlugin_distinct split: option.split)
  have "filter (\<lambda>h. MainAPI.name h = MainAPI.name p) (?rest @ [p]) = [p]"
    using addPlugin_no_other [OF assms, of p] by (simp add: addPlugin_def)
  then have "filter (\<lambda>h. MainAPI.name h = MainAPI.name p) ?rest = []"
    by simp
  then have "MainAPI.name p \<notin> set (map MainAPI.name ?rest)"
    by (auto simp: filter_empty_conv)
  with d show ?thesis by (simp add: addPlugin_def)
qed

lemma applyOp_distinct:
  "distinct (map MainAPI.name holder) \<Longrightarrow> distinct (map MainAPI.name (applyOp holder x))"
  by (cases x) (simp_all add: addPlugin_distinct removePlugin_distinct)

lemma foldl_applyOp_distinct:
  "distinct (map MainAPI.name holder) \<Longrightarrow> distinct (map MainAPI.name (foldl applyOp holder ops))"
  by (induction ops arbitrary: holder) (simp_all add: applyOp_distinct)

lemma runOps_distinct: "distinct (map MainAPI.name (runOps ops))"
  by (simp add: runOps_def foldl_applyOp_distinct)


text \<open>
  Claim C3.  After every sequence of addPlugin and removePlugin calls on the initially
  empty registry, getAllApis holds no two handles of the same name; and registering a
  handle in such a registry leaves exactly one handle of its name, the one registered.
\<close>

theorem registry_names_unique:
  "distinct (map MainAPI.name (getAllApis (runOps ops))) \<and>
   filter (\<lambda>h. MainAPI.name h = MainAPI.name p) (getAllApis (addPlugin p (runOps ops))) = [p]"
  by (simp add: getAllApis_def runOps_distinct addPlugin_no_other)

section \<open>runSearch: partial failure and the short query\<close>

lemma length_trim_le: "length (trim q) \<le> length q"
proof -
  have "length (trim q) = length (dropWhile isTrimmed (rev (dropWhile isTrimmed q)))"
    by (simp add: trim_def)
  also have "\<dots> \<le> length (rev (dropWhile isTrimmed q))"
    by (rule length_dropWhile_le)
  also have "\<dots> \<le> length q"
    by (simp add: length_dropWhile_le)
  finally show ?thesis .
qed

lemma providerStep_recorded:
  "providerStep qm t obj p =
   (case recorded qm t p of None \<Rightarrow> obj | Some (k, v) \<Rightarrow> setProperty obj k v)"
  by (simp add: providerStep_def recorded_def split: option.split outcome.split)

lemma foldl_providerStep:
  "foldl (providerStep qm t) obj ps =
   foldl (\<lambda>obj (k, v). setProperty obj k v) obj (List.map_filter (recorded qm t) ps)"
proof (induction ps arbitrary: obj)
  case Nil
  show ?case by (simp add: List.map_filter_simps)
next
  case (Cons p ps)
  have "foldl (providerStep qm t) obj (p # ps) =
        foldl (providerStep qm t) (providerStep qm t obj p) ps"
    by simp
  also have "\<dots> = foldl (\<lambda>obj (k, v). setProperty obj k v) (providerStep qm t obj p)
                     (List.map_filter (recorded qm t) ps)"
    by (rule Cons.IH)
  also have "\<dots> = foldl (\<lambda>obj (k, v). setProperty obj k v) obj
                     (List.map_filter (recorded qm t) (p # ps))"
    by (cases "recorded qm t p")
       (auto simp: List.map_filter_simps providerStep_recorded [of qm t obj p])
  finally show ?case .
qed

lemma stremioStep_eq:
  "stremioStep res obj = foldl (\<lambda>obj (k, v). setProperty obj k v) obj (stremioEntry res)"
  by (simp add: stremioStep_def stremioEntry_def split: outcome.split)

lemma assign_fresh: "k \<notin> fst ` set obj \<Longrightarrow> assign obj k v = obj @ [(k, v)]"
  by (induction obj) auto

lemma foldl_setProperty_fresh:
  assumes "distinct (map fst es)" and "fst ` set es \<inter> fst ` set obj = {}"
    and "list_all plainKey (map fst es)"
  shows "foldl (\<lambda>obj (k, v). setProperty obj k v) obj es = obj @ es"
  using assms
proof (induction es arbitrary: obj)
  case Nil
  then show ?case by simp
next
  case (Cons e es)
  obtain k v where e: "e = (k, v)" by (cases e)
  from Cons.prems e have k: "k \<notin> fst ` set obj" "k \<noteq> str ''__proto__''"
    by (auto simp: plainKey_def)
  then have step: "setProperty obj k v = obj @ [(k, v)]"
    by (simp add: setProperty_def assign_fresh)
  have "foldl (\<lambda>obj (k, v). setProperty obj k v) (obj @ [(k, v)]) es = (obj @ [(k, v)]) @ es"
  proof (rule Cons.IH)
    show "distinct (map fst es)" using Cons.prems by simp
    show "fst ` set es \<inter> fst ` set (obj @ [(k, v)]) = {}"
      using Cons.prems e by auto
    show "list_all plainKey (map fst es)" using Cons.prems by simp
  qed
  with step e show ?case by simp
qed

lemma objectOf_plain:
  "distinct (map fst es) \<Longrightarrow> list_all plainKey (map fst es) \<Longrightarrow> objectOf es = es"
  using foldl_setProperty_fresh [of es "[]"] by (simp add: objectOf_def)

lemma objectValues_plain:
  assumes "list_all plainKey (map fst obj)"
  shows "objectValues obj = map snd obj"
proof -
  from assms have "\<forall>e \<in> set obj. \<not> isArrayIndex (fst e)"
    by (auto simp: list_all_iff plainKey_def)
  then have "filter (\<lambda>(k, v). isArrayIndex k) obj = []"
    and "filter (\<lambda>(k, v). \<not> isArrayIndex k) obj = obj"
    by (auto simp: filter_empty_conv filter_id_conv)
  then show ?thesis by (simp add: objectValues_def)
qed

lemma runSearch_fst:
  assumes "2 \<le> length (trim q)"
  shows "fst (runSearch env q options) =
    \<lparr>status = Success, query = trim q,
     mergedResults = roundRobin (objectValues (objectOf
        (List.map_filter
           (recorded (case quick options of None \<Rightarrow> False | Some b \<Rightarrow> b) (trim q))
           (settle env (selectProviders (case activeProviders options of None \<Rightarrow> [] | Some a \<Rightarrow> a)
              (getAllApis (registry env))))
         @ stremioEntry (stremioSearch env (trim q))))),
     perProviderResults = objectOf
        (List.map_filter
           (recorded (case quick options of None \<Rightarrow> False | Some b \<Rightarrow> b) (trim q))
           (settle env (selectProviders (case activeProviders options of None \<Rightarrow> [] | Some a \<Rightarrow> a)
              (getAllApis (registry env))))
         @ stremioEntry (stremioSearch env (trim q))),
     error = None\<rparr>"
  using assms
  by (simp add: runSearch_def Let_def mergeResults_roundRobin foldl_providerStep stremioStep_eq
      objectOf_def)

lemma trim_ab: "trim (str ''ab'') = str ''ab''"
  by (simp add: trim_def str_def isTrimmed_def)

lemmas eval_defs = provider_def exampleEnv_def defaultOptions_def recorded_def searchFn_def
  stremioEntry_def selectProviders_def getAllApis_def List.map_filter_simps plainKey_def
  isArrayIndex_def isDigit_def

lemma plainKey_examples:
  "plainKey (str ''A'')" "plainKey (str ''B'')" "plainKey (str ''C'')" "plainKey (str ''stremio'')"
  by (simp_all add: plainKey_def isArrayIndex_def isDigit_def str_def)


text \<open>
  Claim C2, as the code has it.  For a query whose trimmed length is at least 2,
  runSearch resolves with the status \<open>success\<close> and no error, whatever the providers do.
  A provider whose search rejects, resolves with something that is not an array, or is
  missing leaves no entry: \<open>perProviderResults\<close> is the object built from the lists of
  the remaining providers, stored under their names in the order their searches
  settled, followed by the Stremio results under the key \<open>stremio\<close> when there are any.
  \<open>mergedResults\<close> is the round-robin merge of \<open>Object.values\<close> of that object; when the
  keys are distinct and none is \<open>__proto__\<close> or an array index, that is the round-robin
  merge of exactly those lists in that order.  When no provider contributes and Stremio
  returns nothing, \<open>mergedResults\<close> is empty.
\<close>

theorem runSearch_partial_failure:
  assumes "2 \<le> length (trim q)"
  shows "let r = fst (runSearch env q options);
             quickMode = (case quick options of None \<Rightarrow> False | Some b \<Rightarrow> b);
             active = (case activeProviders options of None \<Rightarrow> [] | Some a \<Rightarrow> a);
             settled = settle env (selectProviders active (getAllApis (registry env)));
             entries = List.map_filter (recorded quickMode (trim q)) settled
                       @ stremioEntry (stremioSearch env (trim q))
         in status r = Success \<and> SearchResultState.error r = None \<and>
            perProviderResults r = objectOf entries \<and>
            mergedResults r = roundRobin (objectValues (perProviderResults r)) \<and>
            (distinct (map fst entries) \<and> list_all plainKey (map fst entries) \<longrightarrow>
               mergedResults r = roundRobin (map snd entries)) \<and>
            (entries = [] \<longrightarrow> mergedResults r = [])"
proof -
  have empty: "roundRobin (objectValues (objectOf ([] :: (jsstring \<times> 'a list) list))) = []"
    by (simp add: roundRobin_def objectValues_def objectOf_def maxLength_def)
  show ?thesis
    unfolding Let_def runSearch_fst [OF assms]
    using empty by (auto simp: objectOf_plain objectValues_plain)
qed

theorem runSearch_partial_failure_witness:
  "2 \<le> length (trim (str ''ab'')) \<and>
   mergedResults (fst (runSearch
      (exampleEnv [provider 1 ''A'' (Resolves [1, 2]), provider 2 ''B'' Rejects,
                   provider 3 ''C'' (Resolves [3, 4, 5])] (Resolves []))
      (str ''ab'') defaultOptions)) = [1, 3, 2, 4, 5] \<and>
   status (fst (runSearch (exampleEnv [provider 2 ''B'' Rejects] Rejects)
      (str ''ab'') defaultOptions)) = Success \<and>
   mergedResults (fst (runSearch (exampleEnv [provider 2 ''B'' Rejects] Rejects)
      (str ''ab'') defaultOptions)) = []"
proof -
  let ?env = "exampleEnv [provider 1 ''A'' (Resolves [1, 2]), provider 2 ''B'' Rejects,
                   provider 3 ''C'' (Resolves [3, 4, 5])] (Resolves [])"
  let ?bad = "exampleEnv [provider 2 ''B'' Rejects] Rejects"
  have len: "2 \<le> length (trim (str ''ab''))"
    by (simp add: trim_ab) (simp add: str_def)
  have entries: "List.map_filter (recorded False (trim (str ''ab'')))
          (settle ?env (selectProviders [] (getAllApis (registry ?env))))
        @ stremioEntry (stremioSearch ?env (trim (str ''ab'')))
      = [(str ''A'', [1, 2]), (str ''C'', [3, 4, 5])]"
    by (simp add: eval_defs)
  have none: "List.map_filter (recorded False (trim (str ''ab'')))
          (settle ?bad (selectProviders [] (getAllApis (registry ?bad))))
        @ stremioEntry (stremioSearch ?bad (trim (str ''ab''))) = []"
    by (simp add: eval_defs)
  have rr: "roundRobin [[1, 2], [3, 4, 5 :: nat]] = [1, 3, 2, 4, 5]"
    by (simp add: roundRobin_def maxLength_def takeIndex_def upt_conv_Cons)
  have ne: "str ''A'' \<noteq> str ''C''"
    by (simp add: str_def)
  have q: "(case quick defaultOptions of None \<Rightarrow> False | Some b \<Rightarrow> b) = False"
    and act: "(case activeProviders defaultOptions of None \<Rightarrow> [] | Some a \<Rightarrow> a) = []"
    by (simp_all add: defaultOptions_def)
  from runSearch_partial_failure [OF len, of ?env defaultOptions]
  have "distinct (map fst [(str ''A'', [1, 2 :: nat]), (str ''C'', [3, 4, 5])]) \<and>
        list_all plainKey (map fst [(str ''A'', [1, 2 :: nat]), (str ''C'', [3, 4, 5])]) \<longrightarrow>
        mergedResults (fst (runSearch ?env (str ''ab'') defaultOptions)) =
        roundRobin (map snd [(str ''A'', [1, 2 :: nat]), (str ''C'', [3, 4, 5])])"
    unfolding Let_def q act entries by blast
  moreover have "distinct (map fst [(str ''A'', [1, 2 :: nat]), (str ''C'', [3, 4, 5])]) \<and>
        list_all plainKey (map fst [(str ''A'', [1, 2 :: nat]), (str ''C'', [3, 4, 5])])"
    using ne by (simp add: plainKey_examples)
  ultimately have "mergedResults (fst (runSearch ?env (str ''ab'') defaultOptions)) =
        roundRobin (map snd [(str ''A'', [1, 2 :: nat]), (str ''C'', [3, 4, 5])])"
    by blast
  with rr have a: "mergedResults (fst (runSearch ?env (str ''ab'') defaultOptions)) = [1, 3, 2, 4, 5]"
    by simp
  from runSearch_partial_failure [OF len, of ?bad defaultOptions]
  have b: "status (fst (runSearch ?bad (str ''ab'') defaultOptions)) = Success \<and>
           mergedResults (fst (runSearch ?bad (str ''ab'') defaultOptions)) = []"
    unfolding Let_def q act none by blast
  from len a b show ?thesis by simp
qed


text \<open>
  The claim as stated fails where Stremio add-ons answer: with a single registered
  provider whose search rejects and a Stremio result \<open>[7]\<close>, every provider has failed and
  the merged list is \<open>[7]\<close>, not empty.
\<close>

theorem runSearch_all_fail_counterexample:
  "recorded False (trim (str ''ab'')) (provider 2 ''B'' Rejects) = None \<and>
   status (fst (runSearch (exampleEnv [provider 2 ''B'' Rejects] (Resolves [7]))
      (str ''ab'') defaultOptions)) = Success \<and>
   mergedResults (fst (runSearch (exampleEnv [provider 2 ''B'' Rejects] (Resolves [7]))
      (str ''ab'') defaultOptions)) = [7]"
proof -
  have len: "2 \<le> length (trim (str ''ab''))"
    by (simp add: trim_ab) (simp add: str_def)
  have rr: "roundRobin [[7 :: nat]] = [7]"
    by (simp add: roundRobin_def maxLength_def takeIndex_def upt_conv_Cons)
  have "objectOf [(str ''stremio'', [7 :: nat])] = [(str ''stremio'', [7])]"
    by (simp add: objectOf_def setProperty_def str_def)
  moreover have "objectValues [(str ''stremio'', [7 :: nat])] = [[7]]"
    by (simp add: objectValues_def isArrayIndex_def isDigit_def str_def)
  ultimately show ?thesis
    using rr by (simp add: runSearch_fst [OF len] eval_defs)
qed


text \<open>
  Claim C7.  A query of fewer than two code units returns the idle state with the
  trimmed query, an empty merged list and an empty per-provider record, and runSearch
  makes no search call at all.
\<close>

theorem runSearch_short_query_idle:
  assumes "length q < 2"
  shows "runSearch env q options =
    (\<lparr>status = Idle, query = trim q, mergedResults = [], perProviderResults = [],
      error = None\<rparr>, [])"
proof -
  from assms length_trim_le [of q] have "length (trim q) \<le> 1" by simp
  then show ?thesis by (simp add: runSearch_def)
qed
theorem runSearch_short_query_idle_witness:
  "length (str ''a'') < 2 \<and>
   runSearch (exampleEnv [provider 1 ''A'' (Resolves [1, 2])] (Resolves [7])) (str ''a'')
      defaultOptions =
   (\<lparr>status = Idle, query = str ''a'', mergedResults = [], perProviderResults = [],
      error = None\<rparr>, [])"
proof -
  have len: "length (str ''a'') < 2" by (simp add: str_def)
  have "trim (str ''a'') = str ''a''"
    by (simp add: trim_def str_def isTrimmed_def)
  with len show ?thesis
    using runSearch_short_query_idle [OF len,
        of "exampleEnv [provider 1 ''A'' (Resolves [1, 2])] (Resolves [7])" defaultOptions]
    by simp
qed

section \<open>shouldResume\<close>

lemma literal09_nearest: "roundQuotient 9 10 0 = Some literal09"
  unfolding literal09_def by code_simp

lemma jsDivide_not_NaN: "valueOf y > 0 \<Longrightarrow> jsDivide x y \<noteq> NaN"
  by (cases x; cases y) (auto simp: jsDivide.simps split: option.split double.split)

lemma jsGreater_jsLessEq: "n \<noteq> NaN \<Longrightarrow> jsGreater n c = (\<not> jsLessEq n c)"
  by (cases n) auto

lemma divide_95_100:
  "jsDivide (Double 95 0) (Double 100 0) = Number (Double 8556839292003942 (- 53))"
  by code_simp

lemma divide_50_100:
  "jsDivide (Double 50 0) (Double 100 0) = Number (Double 4503599627370496 (- 53))"
  by code_simp

lemma divide_at_the_boundary:
  "jsDivide (Double 4500000000000001 0) (Double 5000000000000001 0) = Number literal09"
  "jsDivide (Double 6079859496950170 (- 49)) (Double 12 0) = Number literal09"
  unfolding literal09_def by code_simp+

text \<open>
  Two entries at the 90 percent boundary, where the exact quotient lies above nine
  tenths and the rounded quotient is the double \<open>0.9\<close> itself: position
  4500000000000001 of 5000000000000001, and position 10.8 (the double
  \<open>6079859496950170 * 2^-49\<close>) of 12.  shouldResume is true at both.
\<close>

lemma shouldResume_at_the_boundary:
  "shouldResume (Some (d\<lparr>position := Double 4500000000000001 0,
                          duration := Double 5000000000000001 0\<rparr>))"
  "shouldResume (Some (d\<lparr>position := Double 6079859496950170 (- 49),
                          duration := Double 12 0\<rparr>))"
  by (simp_all add: shouldResume_def divide_at_the_boundary pow2_def)

text \<open>
  Claim C8.  For every resume entry, shouldResume is true exactly when the position is
  at least 10 and the duration is not positive or the quotient of position and duration
  (as JavaScript divides) is at most \<open>0.9\<close>.  It is false at position 5 of 100, false at
  position 95 of 100 and true at position 50 of 100; it is false for \<open>null\<close>.
\<close>

theorem shouldResume_iff:
  "shouldResume (Some d) =
     (valueOf (position d) \<ge> 10 \<and>
      (valueOf (duration d) \<le> 0 \<or> jsLessEq (jsDivide (position d) (duration d)) literal09)) \<and>
   \<not> shouldResume (Some (d\<lparr>position := Double 5 0, duration := Double 100 0\<rparr>)) \<and>
   \<not> shouldResume (Some (d\<lparr>position := Double 95 0, duration := Double 100 0\<rparr>)) \<and>
   shouldResume (Some (d\<lparr>position := Double 50 0, duration := Double 100 0\<rparr>)) \<and>
   \<not> shouldResume None"
proof -
  have iff: "shouldResume (Some d) =
     (valueOf (position d) \<ge> 10 \<and>
      (valueOf (duration d) \<le> 0 \<or> jsLessEq (jsDivide (position d) (duration d)) literal09))"
  proof (cases "valueOf (duration d) > 0")
    case True
    then have "jsGreater (jsDivide (position d) (duration d)) literal09 =
               (\<not> jsLessEq (jsDivide (position d) (duration d)) literal09)"
      by (intro jsGreater_jsLessEq jsDivide_not_NaN)
    with True show ?thesis
      by (auto simp: shouldResume_def)
  next
    case False
    then show ?thesis
      by (auto simp: shouldResume_def)
  qed
  have ex: "\<not> shouldResume (Some (d\<lparr>position := Double 5 0, duration := Double 100 0\<rparr>))"
    "\<not> shouldResume (Some (d\<lparr>position := Double 95 0, duration := Double 100 0\<rparr>))"
    "shouldResume (Some (d\<lparr>position := Double 50 0, duration := Double 100 0\<rparr>))"
    "\<not> shouldResume None"
    by (simp_all add: shouldResume_def divide_95_100 divide_50_100 literal09_def pow2_def)
  from iff ex show ?thesis by blast
qed

section \<open>Package classification\<close>

lemma isBinary_flag: "isBinary True code"
  by (simp add: isBinary_def)

lemma isBinary_PK: "startsWith t (str ''PK'') \<Longrightarrow> isBinary b t"
  by (simp add: isBinary_def)

lemma isBinary_dex: "startsWith t (str ''dex'' @ [0x0A]) \<Longrightarrow> isBinary b t"
  by (simp add: isBinary_def)

lemma take_min_length: "take (min n (length t)) t = take n t"
  by (cases "n \<le> length t") (simp_all add: min_def)

lemma isBinary_ratio:
  assumes "10 * length (filter binaryChar (take 100 t)) > length (take 100 t)"
  shows "isBinary b t"
proof -
  from assms have "filter binaryChar (take 100 t) \<noteq> []"
    by auto
  with assms show ?thesis
    unfolding isBinary_def Let_def take_min_length by simp
qed

lemma binaryChar_control: "binaryChar c \<Longrightarrow> controlChar c"
  by (auto simp: binaryChar_def controlChar_def word_le_nat_alt)

lemma startsWith_dex_control:
  assumes "startsWith t (str ''dex'' @ [0x0A])"
  shows "\<not> list_all (\<lambda>c. \<not> controlChar c) t"
proof -
  from assms have "take (length (str ''dex'' @ [0x0A])) t = str ''dex'' @ [0x0A]"
    unfolding startsWith_def .
  then have "set (take (length (str ''dex'' @ [0x0A])) t) = set (str ''dex'' @ [0x0A])"
    by (rule arg_cong)
  then have "(0x0A :: jschar) \<in> set (take (length (str ''dex'' @ [0x0A])) t)"
    by simp
  then have "(0x0A :: jschar) \<in> set t"
    by (rule in_set_takeD)
  moreover have "controlChar 0x0A"
    by (simp add: controlChar_def)
  ultimately show ?thesis
    by (auto simp: list_all_iff)
qed

lemma isBinary_clean:
  assumes "\<not> startsWith t (str ''PK'')" and "list_all (\<lambda>c. \<not> controlChar c) t"
  shows "\<not> isBinary False t"
proof -
  from assms(2) have "\<not> startsWith t (str ''dex'' @ [0x0A])"
    using startsWith_dex_control by blast
  moreover have "filter binaryChar (take (min 100 (length t)) t) = []"
  proof -
    have "\<forall>c \<in> set t. \<not> binaryChar c"
      using assms(2) binaryChar_control by (auto simp: list_all_iff)
    then show ?thesis
      by (auto simp: filter_empty_conv dest: in_set_takeD)
  qed
  ultimately show ?thesis
    using assms(1) unfolding isBinary_def Let_def by simp
qed

lemma isBinary_cached: "isBinary (cachedIsBinaryFile t) t = isBinary False t"
  by (simp add: isBinary_def cachedIsBinaryFile_def)


text \<open>
  Claim C4, as the code has it.  The classification is a function of the content
  together with the form in which it reached the loader.  A package delivered as an
  \<open>ArrayBuffer\<close> that the loader converts to a string (its length within what the engine
  accepts in the spread call) is a ForeignBytecodeArchive whatever its bytes.  A package
  delivered as text is a ForeignBytecodeArchive when it starts with \<open>PK\<close> (whatever its
  size) or with \<open>dex\<close> and a line feed, or when more than a tenth of its first 100 code
  units are control characters other than TAB, LF and CR; a non-empty text without
  control characters that does not start with \<open>PK\<close> is a ScriptedSource.  Cached code is
  classified as text is.  (An empty text counts as a failed download and as no cache
  entry, and is never classified.)
\<close>

theorem classification_by_content_and_delivery:
  "(length bytes \<le> limit \<longrightarrow>
      classifyDownloaded limit (Buffer bytes) = Some ForeignBytecodeArchive) \<and>
   (startsWith t (str ''PK'') \<longrightarrow>
      classifyDownloaded limit (Text t) = Some ForeignBytecodeArchive) \<and>
   (startsWith t (str ''dex'' @ [0x0A]) \<longrightarrow>
      classifyDownloaded limit (Text t) = Some ForeignBytecodeArchive) \<and>
   (10 * length (filter binaryChar (take 100 t)) > length (take 100 t) \<longrightarrow>
      classifyDownloaded limit (Text t) = Some ForeignBytecodeArchive) \<and>
   (t \<noteq> [] \<and> \<not> startsWith t (str ''PK'') \<and> list_all (\<lambda>c. \<not> controlChar c) t \<longrightarrow>
      classifyDownloaded limit (Text t) = Some ScriptedSource) \<and>
   (t \<noteq> [] \<longrightarrow> classifyDownloaded limit (Text t) = Some (classifyCached t))"
  by (simp add: classifyDownloaded_def classifyCached_def decodeDownloaded_def kindOf_def
      fromCharCode_def
      isBinary_flag isBinary_PK isBinary_dex isBinary_ratio isBinary_clean isBinary_cached)

theorem classification_by_content_and_delivery_witness:
  "length [0x50, 0x4B, 0x03, 0x04 :: 8 word] \<le> 125257 \<and>
   classifyDownloaded 125257 (Buffer [0x50, 0x4B, 0x03, 0x04]) = Some ForeignBytecodeArchive \<and>
   startsWith (str ''PKzip'') (str ''PK'') \<and>
   classifyDownloaded 125257 (Text (str ''PKzip'')) = Some ForeignBytecodeArchive \<and>
   startsWith (str ''dex'' @ [0x0A, 0x30]) (str ''dex'' @ [0x0A]) \<and>
   classifyDownloaded 125257 (Text (str ''dex'' @ [0x0A, 0x30])) = Some ForeignBytecodeArchive \<and>
   10 * length (filter binaryChar (take 100 [0x01, 0x02, 0x41])) > length (take 100 [0x01, 0x02, 0x41 :: jschar]) \<and>
   classifyDownloaded 125257 (Text [0x01, 0x02, 0x41]) = Some ForeignBytecodeArchive \<and>
   str ''x=1'' \<noteq> [] \<and>
   \<not> startsWith (str ''x=1'') (str ''PK'') \<and> list_all (\<lambda>c. \<not> controlChar c) (str ''x=1'') \<and>
   classifyDownloaded 125257 (Text (str ''x=1'')) = Some ScriptedSource \<and>
   classifyCached (str ''x=1'') = ScriptedSource"
proof -
  have l: "length [0x50, 0x4B, 0x03, 0x04 :: 8 word] \<le> 125257"
    by simp
  have a: "startsWith (str ''PKzip'') (str ''PK'')"
    by (simp add: startsWith_def str_def)
  have d: "startsWith (str ''dex'' @ [0x0A, 0x30]) (str ''dex'' @ [0x0A])"
    by (simp add: startsWith_def str_def)
  have b: "10 * length (filter binaryChar (take 100 [0x01, 0x02, 0x41])) > length (take 100 [0x01, 0x02, 0x41 :: jschar])"
    by (simp add: binaryChar_def)
  have c: "str ''x=1'' \<noteq> []"
    "\<not> startsWith (str ''x=1'') (str ''PK'')" "list_all (\<lambda>c. \<not> controlChar c) (str ''x=1'')"
    by (simp_all add: startsWith_def str_def controlChar_def)
  from classification_by_content_and_delivery [of "[0x50, 0x4B, 0x03, 0x04]" 125257] l
  have 0: "classifyDownloaded 125257 (Buffer [0x50, 0x4B, 0x03, 0x04]) = Some ForeignBytecodeArchive"
    by blast
  from classification_by_content_and_delivery [of _ 125257 "str ''PKzip''"] a
  have 1: "classifyDownloaded 125257 (Text (str ''PKzip'')) = Some ForeignBytecodeArchive" by blast
  from classification_by_content_and_delivery [of _ 125257 "str ''dex'' @ [0x0A, 0x30]"] d
  have 5: "classifyDownloaded 125257 (Text (str ''dex'' @ [0x0A, 0x30])) = Some ForeignBytecodeArchive" by blast
  from classification_by_content_and_delivery [of _ 125257 "[0x01, 0x02, 0x41]"] b
  have 2: "classifyDownloaded 125257 (Text [0x01, 0x02, 0x41]) = Some ForeignBytecodeArchive" by blast
  from classification_by_content_and_delivery [of _ 125257 "str ''x=1''"] c
  have 3: "classifyDownloaded 125257 (Text (str ''x=1'')) = Some ScriptedSource"
    and 4: "classifyDownloaded 125257 (Text (str ''x=1'')) = Some (classifyCached (str ''x=1''))" by blast+
  from 3 4 have 6: "classifyCached (str ''x=1'') = ScriptedSource" by simp
  from l a b c d 0 1 2 3 5 6 show ?thesis by simp
qed

text \<open>
  The claim as stated fails: the same three bytes \<open>x=1\<close> are a ScriptedSource when the
  server declares \<open>text/plain\<close> and a ForeignBytecodeArchive when it declares
  \<open>application/octet-stream\<close>.
\<close>

theorem classification_depends_on_delivery_counterexample:
  "fst (downloadPlugin (plainEnv (Some (sourceResponse (str ''text/plain'')))) (str ''u'') emptyWorld)
     = Some (Text (str ''x=1'')) \<and>
   classifyDownloaded 125257 (Text (str ''x=1'')) = Some ScriptedSource \<and>
   fst (downloadPlugin (plainEnv (Some (sourceResponse (str ''application/octet-stream'')))) (str ''u'') emptyWorld)
     = Some (Buffer [0x78, 0x3D, 0x31]) \<and>
   classifyDownloaded 125257 (Buffer [0x78, 0x3D, 0x31]) = Some ForeignBytecodeArchive"
proof -
  have "\<not> binaryContentType (str ''text/plain'')"
    by (simp add: binaryContentType_def str_def startsWith_def)
  moreover have "binaryContentType (str ''application/octet-stream'')"
    by (simp add: binaryContentType_def str_def startsWith_def)
  moreover have "codeUnits [0x78, 0x3D, 0x31] = str ''x=1''"
    by (simp add: codeUnits_def str_def)
  ultimately show ?thesis
    by (simp add: downloadPlugin_def plainEnv_def sourceResponse_def Let_def
        classifyDownloaded_def decodeDownloaded_def fromCharCode_def kindOf_def isBinary_def)
       (simp add: str_def startsWith_def binaryChar_def)
qed

section \<open>loadPlugin\<close>

lemma loadPlugin_cached:
  assumes "getApi (SitePlugin.internalName plugin) (apis w) = None"
    and "getStoredPluginCode (SitePlugin.internalName plugin) repoUrl w = Some code"
    and "code \<noteq> []"
  shows "loadPlugin env plugin repoUrl w =
         loadCode env plugin repoUrl code (cachedIsBinaryFile code) w"
  using assms by (simp add: loadPlugin_def)

lemma loadPlugin_fresh:
  assumes "getApi (SitePlugin.internalName plugin) (apis w) = None"
    and "getStoredPluginCode (SitePlugin.internalName plugin) repoUrl w = None"
    and "downloadPlugin env (SitePlugin.url plugin) w = (Some d, w1)"
    and "d \<noteq> Text []"
    and "decodeDownloaded (spreadLimit env) d = Some (code, b)"
  shows "loadPlugin env plugin repoUrl w =
         loadCode env plugin repoUrl code b
           (storePluginCode (SitePlugin.internalName plugin) repoUrl code w1)"
  using assms by (simp add: loadPlugin_def)

text \<open>
  A downloaded buffer beyond the engine's limit is never classified: loadPlugin fails
  at the \<open>parse\<close> stage after the fetch, and nothing is cached or registered.
\<close>

lemma loadPlugin_buffer_beyond_limit:
  assumes "getApi (SitePlugin.internalName plugin) (apis w) = None"
    and "getStoredPluginCode (SitePlugin.internalName plugin) repoUrl w = None"
    and "downloadPlugin env (SitePlugin.url plugin) w = (Some (Buffer bytes), w1)"
    and "spreadLimit env < length bytes"
  shows "loadPlugin env plugin repoUrl w =
         (failure Parse (str ''Unexpected error loading plugin: '' @ orUnknown (spreadError env)),
          w1)"
  using assms by (simp add: loadPlugin_def decodeDownloaded_def fromCharCode_def)

lemma loadCode_exports_read_throws:
  assumes "\<not> isBinary b code" and "runCode env code = Returns (ReadThrows m)"
  shows "loadCode env plugin repoUrl code b w =
         (failure Parse (str ''Unexpected error loading plugin: '' @ orUnknown m),
          w\<lparr>trace := trace w @ [RunCode code]\<rparr>)"
  using assms by (simp add: loadCode_def)

lemma getApi_demo: "getApi (str ''Demo'') [demoApi] = Some demoApi"
  by (simp add: getApi_def demoApi_def)


text \<open>
  Claim C10.  When a handle named as the descriptor's internalName is registered,
  loadPlugin returns success with no error and leaves the whole state as it was: the
  registry, the cached code, the stored metadata and the trace of requests and
  executions (no download, no code run).
\<close>

theorem loadPlugin_already_registered:
  assumes "getApi (SitePlugin.internalName plugin) (apis w) \<noteq> None"
  shows "loadPlugin env plugin repoUrl w = (\<lparr>success = True, error = None\<rparr>, w)"
  using assms by (auto simp: loadPlugin_def)

theorem loadPlugin_already_registered_witness:
  "getApi (SitePlugin.internalName (demoPlugin 2)) (apis (emptyWorld\<lparr>apis := [demoApi]\<rparr>)) \<noteq> None \<and>
   loadPlugin (demoEnv (Some zipResponse)) (demoPlugin 2) demoRepo (emptyWorld\<lparr>apis := [demoApi]\<rparr>) =
     (\<lparr>success = True, error = None\<rparr>, emptyWorld\<lparr>apis := [demoApi]\<rparr>)"
proof -
  have h: "getApi (SitePlugin.internalName (demoPlugin 2)) (apis (emptyWorld\<lparr>apis := [demoApi]\<rparr>)) \<noteq> None"
    by (simp add: demoPlugin_def getApi_demo)
  from h loadPlugin_already_registered [OF h] show ?thesis by simp
qed


lemma stale_code:
  "getStoredPluginCode (SitePlugin.internalName (demoPlugin 2)) demoRepo staleWorld =
   Some (str ''exports.default = v1'')"
  by (simp add: getStoredPluginCode_def staleWorld_def demoPlugin_def)

lemma stale_not_binary: "\<not> isBinary (cachedIsBinaryFile (str ''exports.default = v1'')) (str ''exports.default = v1'')"
  by (simp add: isBinary_def cachedIsBinaryFile_def startsWith_def str_def binaryChar_def)

text \<open>
  Claim C5 at a failing input.  The cache holds code for the plugin, the stored record
  says version 1, the descriptor says version 2: loadPlugin succeeds without a fetch
  (the trace holds the one code run), and the record now says version 2 for the code of
  version 1.
\<close>

theorem loadPlugin_stale_cache_not_refetched:
  "map PluginMetadata.version (getStoredPlugins staleWorld) = [1] \<and>
   SitePlugin.version (demoPlugin 2) = 2 \<and>
   success (fst (loadPlugin (demoEnv (Some zipResponse)) (demoPlugin 2) demoRepo staleWorld)) \<and>
   trace (snd (loadPlugin (demoEnv (Some zipResponse)) (demoPlugin 2) demoRepo staleWorld)) =
     [RunCode (str ''exports.default = v1'')] \<and>
   getStoredPlugins (snd (loadPlugin (demoEnv (Some zipResponse)) (demoPlugin 2) demoRepo staleWorld)) =
     [demoRecord 2 True]"
proof -
  have reg: "getApi (SitePlugin.internalName (demoPlugin 2)) (apis staleWorld) = None"
    by (simp add: getApi_def staleWorld_def emptyWorld_def)
  have ne: "str ''exports.default = v1'' \<noteq> []"
    by (simp add: str_def)
  have run: "loadPlugin (demoEnv (Some zipResponse)) (demoPlugin 2) demoRepo staleWorld =
     loadCode (demoEnv (Some zipResponse)) (demoPlugin 2) demoRepo (str ''exports.default = v1'')
       (cachedIsBinaryFile (str ''exports.default = v1'')) staleWorld"
    by (rule loadPlugin_cached [OF reg stale_code ne])
  have code: "loadCode (demoEnv (Some zipResponse)) (demoPlugin 2) demoRepo (str ''exports.default = v1'')
       (cachedIsBinaryFile (str ''exports.default = v1'')) staleWorld =
     (\<lparr>success = True, error = None\<rparr>,
      staleWorld\<lparr>trace := [RunCode (str ''exports.default = v1'')],
        apis := [demoApi], nextIdent := 1, storedPlugins := Some [demoRecord 2 True]\<rparr>)"
    unfolding loadCode_def
    by (simp add: stale_not_binary demoEnv_def demoApi_def Let_def addPlugin_def
        savePluginMetadata_def getStoredPlugins_def staleWorld_def emptyWorld_def demoRecord_def
        demoPlugin_def demoRepo_def)
  show ?thesis
    unfolding run code
    by (simp add: getStoredPlugins_def staleWorld_def emptyWorld_def demoRecord_def demoPlugin_def)
qed


section \<open>unloadPlugin\<close>

lemma find_findIndex_update:
  assumes "find P xs = Some r" and "Q r" and "\<And>x. Q x \<Longrightarrow> P x" and "P r'"
  shows "\<exists>i. findIndex Q xs = Some i \<and> i < length xs \<and> xs ! i = r \<and>
             find P (xs[i := r']) = Some r'"
  using assms(1)
proof (induction xs)
  case Nil
  then show ?case by simp
next
  case (Cons x xs)
  show ?case
  proof (cases "P x")
    case True
    with Cons.prems have "x = r" by simp
    with assms(2,4) show ?thesis by simp
  next
    case False
    with Cons.prems have "find P xs = Some r" by simp
    from Cons.IH [OF this] obtain i where
      i: "findIndex Q xs = Some i" "i < length xs" "xs ! i = r" "find P (xs[i := r']) = Some r'"
      by blast
    from False assms(3) have "\<not> Q x" by blast
    with i False have "findIndex Q (x # xs) = Some (Suc i) \<and> Suc i < length (x # xs) \<and>
        (x # xs) ! Suc i = r \<and> find P ((x # xs)[Suc i := r']) = Some r'"
      by simp
    then show ?thesis by blast
  qed
qed

lemma getStoredPlugins_apis [simp]:
  "getStoredPlugins (w\<lparr>apis := a\<rparr>) = getStoredPlugins w"
  by (simp add: getStoredPlugins_def)

lemma unloadPlugin_missing:
  "find (\<lambda>p. PluginMetadata.internalName p = n) (getStoredPlugins w) = None \<Longrightarrow>
   unloadPlugin n w = w"
  by (simp add: unloadPlugin_def)

lemma unloadPlugin_stored:
  assumes "find (\<lambda>p. PluginMetadata.internalName p = n) (getStoredPlugins w) = Some r"
  shows "\<exists>i. i < length (getStoredPlugins w) \<and> getStoredPlugins w ! i = r \<and>
             getStoredPlugins (unloadPlugin n w) = (getStoredPlugins w)[i := r\<lparr>enabled := False\<rparr>] \<and>
             find (\<lambda>p. PluginMetadata.internalName p = n) (getStoredPlugins (unloadPlugin n w))
               = Some (r\<lparr>enabled := False\<rparr>)"
proof -
  let ?r' = "r\<lparr>enabled := False\<rparr>"
  let ?Q = "\<lambda>p. PluginMetadata.internalName p = PluginMetadata.internalName ?r' \<and>
                 repositoryUrl p = repositoryUrl ?r'"
  from assms have rn: "PluginMetadata.internalName r = n"
    by (auto simp: find_Some_iff)
  have "\<exists>i. findIndex ?Q (getStoredPlugins w) = Some i \<and> i < length (getStoredPlugins w) \<and>
            getStoredPlugins w ! i = r \<and>
            find (\<lambda>p. PluginMetadata.internalName p = n) ((getStoredPlugins w)[i := ?r']) = Some ?r'"
    using assms rn by (intro find_findIndex_update) simp_all
  then obtain i where i: "findIndex ?Q (getStoredPlugins w) = Some i"
      "i < length (getStoredPlugins w)" "getStoredPlugins w ! i = r"
      "find (\<lambda>p. PluginMetadata.internalName p = n) ((getStoredPlugins w)[i := ?r']) = Some ?r'"
    by blast
  have "getStoredPlugins (unloadPlugin n w) = (getStoredPlugins w)[i := ?r']"
    using assms i(1)
    by (simp add: unloadPlugin_def savePluginMetadata_def Let_def split: option.split)
       (simp add: getStoredPlugins_def)
  with i show ?thesis by auto
qed


text \<open>
  What unloadPlugin does to the stored records: for a name without a record it changes
  nothing; otherwise the first record of that name is the one it disables, once and
  again, and no record is dropped.
\<close>

lemma unloadPlugin_first_record:
  "(find (\<lambda>p. PluginMetadata.internalName p = n) (getStoredPlugins w) = None \<longrightarrow>
      unloadPlugin n w = w) \<and>
   (find (\<lambda>p. PluginMetadata.internalName p = n) (getStoredPlugins w) = Some r \<longrightarrow>
      find (\<lambda>p. PluginMetadata.internalName p = n) (getStoredPlugins (unloadPlugin n w))
        = Some (r\<lparr>enabled := False\<rparr>) \<and>
      find (\<lambda>p. PluginMetadata.internalName p = n)
           (getStoredPlugins (unloadPlugin n (unloadPlugin n w)))
        = Some (r\<lparr>enabled := False\<rparr>) \<and>
      getStoredPlugins (unloadPlugin n (unloadPlugin n w)) = getStoredPlugins (unloadPlugin n w) \<and>
      length (getStoredPlugins (unloadPlugin n w)) = length (getStoredPlugins w))"
proof (intro conjI impI)
  assume "find (\<lambda>p. PluginMetadata.internalName p = n) (getStoredPlugins w) = None"
  then show "unloadPlugin n w = w" by (rule unloadPlugin_missing)
next
  assume r: "find (\<lambda>p. PluginMetadata.internalName p = n) (getStoredPlugins w) = Some r"
  let ?r' = "r\<lparr>enabled := False\<rparr>"
  let ?w1 = "unloadPlugin n w"
  from unloadPlugin_stored [OF r] obtain i where
    i: "getStoredPlugins ?w1 = (getStoredPlugins w)[i := ?r']"
    and f1: "find (\<lambda>p. PluginMetadata.internalName p = n) (getStoredPlugins ?w1) = Some ?r'"
    by blast
  from unloadPlugin_stored [OF f1] obtain j where
    j: "j < length (getStoredPlugins ?w1)" "getStoredPlugins ?w1 ! j = ?r'"
      "getStoredPlugins (unloadPlugin n ?w1) = (getStoredPlugins ?w1)[j := ?r'\<lparr>enabled := False\<rparr>]"
    and f2: "find (\<lambda>p. PluginMetadata.internalName p = n) (getStoredPlugins (unloadPlugin n ?w1))
               = Some (?r'\<lparr>enabled := False\<rparr>)"
    by blast
  show "find (\<lambda>p. PluginMetadata.internalName p = n) (getStoredPlugins ?w1) = Some ?r'"
    by (rule f1)
  show "find (\<lambda>p. PluginMetadata.internalName p = n) (getStoredPlugins (unloadPlugin n ?w1)) = Some ?r'"
    using f2 by simp
  show "getStoredPlugins (unloadPlugin n ?w1) = getStoredPlugins ?w1"
    using j by (simp add: list_update_same_conv)
  show "length (getStoredPlugins ?w1) = length (getStoredPlugins w)"
    using i by simp
qed


lemma unloadPlugin_trace:
  "trace (unloadPlugin n w) = trace w \<and> pluginInstances (unloadPlugin n w) = pluginInstances w \<and>
   isInitialized (unloadPlugin n w) = isInitialized w"
  by (simp add: unloadPlugin_def savePluginMetadata_def Let_def split: option.split)

lemma str_append: "str a @ str b = str (a @ b)"
  by (simp add: str_def)

lemma str_empty: "(str s = []) = (s = [])"
  by (simp add: str_def)

lemma zip_is_binary: "binaryContentType (str ''application/zip'')"
  by (simp add: binaryContentType_def str_def startsWith_def)

lemma dexWorld_eq:
  "loadPlugin (demoEnv (Some zipResponse)) (demoPlugin 1) demoRepo emptyWorld =
   (\<lparr>success = True, error = None\<rparr>,
    \<lparr>apis = [\<lparr>ident = 0, MainAPI.name = str ''Demo'', mainUrl = str ''https://repo/demo.cs3'',
              search = Some (bridgeSearch (demoEnv (Some zipResponse)) (str ''Demo'')),
              quickSearch = Some (bridgeSearch (demoEnv (Some zipResponse)) (str ''Demo'')),
              load = Some (bridgeLoad (demoEnv (Some zipResponse)) (str ''Demo''))\<rparr>],
     nextIdent = 1,
     storedPlugins = Some [demoRecord 1 True],
     localStorage = [codeKey (str ''Demo'') demoRepo \<mapsto> codeUnits [0x50, 0x4B, 0x03, 0x04]],
     isInitialized = True, pluginInstances = [],
     trace = [HttpGet (str ''https://repo/demo.cs3''), BridgeHealth,
              BridgeLoad (str ''/plugins/Demo'') (str ''Demo'') demoRepo]\<rparr>)"
proof -
  have dl: "downloadPlugin (demoEnv (Some zipResponse)) (SitePlugin.url (demoPlugin 1)) emptyWorld =
      (Some (Buffer [0x50, 0x4B, 0x03, 0x04]),
       emptyWorld\<lparr>trace := [HttpGet (str ''https://repo/demo.cs3'')]\<rparr>)"
    by (simp add: downloadPlugin_def demoEnv_def zipResponse_def zip_is_binary demoPlugin_def
        emptyWorld_def Let_def)
  have br: "\<And>w. \<not> isInitialized w \<Longrightarrow>
      bridgeLoadPlugin (demoEnv (Some zipResponse)) (demoPlugin 1) demoRepo w =
      (BridgeReturns True,
       w\<lparr>isInitialized := True,
         trace := trace w @ [BridgeHealth, BridgeLoad (str ''/plugins/Demo'') (str ''Demo'') demoRepo]\<rparr>)"
    by (simp add: bridgeLoadPlugin_def initializeBridge_def bridgeDownloadPlugin_def Let_def
        demoEnv_def demoElectron_def demoPlugin_def str_append str_empty)
  have reg: "getApi (SitePlugin.internalName (demoPlugin 1)) (apis emptyWorld) = None"
    by (simp add: getApi_def emptyWorld_def)
  have nocode: "getStoredPluginCode (SitePlugin.internalName (demoPlugin 1)) demoRepo emptyWorld = None"
    by (simp add: getStoredPluginCode_def emptyWorld_def)
  have dec: "decodeDownloaded (spreadLimit (demoEnv (Some zipResponse))) (Buffer [0x50, 0x4B, 0x03, 0x04])
      = Some (codeUnits [0x50, 0x4B, 0x03, 0x04], True)"
    by (simp add: decodeDownloaded_def fromCharCode_def demoEnv_def)
  have "loadPlugin (demoEnv (Some zipResponse)) (demoPlugin 1) demoRepo emptyWorld =
        loadCode (demoEnv (Some zipResponse)) (demoPlugin 1) demoRepo
          (codeUnits [0x50, 0x4B, 0x03, 0x04]) True
          (storePluginCode (SitePlugin.internalName (demoPlugin 1)) demoRepo
             (codeUnits [0x50, 0x4B, 0x03, 0x04])
             (emptyWorld\<lparr>trace := [HttpGet (str ''https://repo/demo.cs3'')]\<rparr>))"
    by (rule loadPlugin_fresh [OF reg nocode dl _ dec]) simp
  also have "\<dots> = (\<lparr>success = True, error = None\<rparr>,
    \<lparr>apis = [\<lparr>ident = 0, MainAPI.name = str ''Demo'', mainUrl = str ''https://repo/demo.cs3'',
              search = Some (bridgeSearch (demoEnv (Some zipResponse)) (str ''Demo'')),
              quickSearch = Some (bridgeSearch (demoEnv (Some zipResponse)) (str ''Demo'')),
              load = Some (bridgeLoad (demoEnv (Some zipResponse)) (str ''Demo''))\<rparr>],
     nextIdent = 1,
     storedPlugins = Some [demoRecord 1 True],
     localStorage = [codeKey (str ''Demo'') demoRepo \<mapsto> codeUnits [0x50, 0x4B, 0x03, 0x04]],
     isInitialized = True, pluginInstances = [],
     trace = [HttpGet (str ''https://repo/demo.cs3''), BridgeHealth,
              BridgeLoad (str ''/plugins/Demo'') (str ''Demo'') demoRepo]\<rparr>)"
    by (simp add: loadCode_def isBinary_def storePluginCode_def br Let_def addPlugin_def
        savePluginMetadata_def getStoredPlugins_def demoRecord_def emptyWorld_def)
       (simp add: demoPlugin_def)
  finally show ?thesis .
qed


text \<open>
  Claim C6 at a failing input.  A package served as \<open>application/zip\<close> is installed
  through the sidecar (one fetch, the health probe, \<open>POST /plugin/load\<close>).  unloadPlugin
  then unregisters the handle and disables the record, and the trace is what it was: no
  request goes to the sidecar.  The bridge client's own unloadPlugin, which unloadPlugin
  does not call, would send none either.
\<close>

theorem unloadPlugin_sends_no_unload_request:
  "success (fst (loadPlugin (demoEnv (Some zipResponse)) (demoPlugin 1) demoRepo emptyWorld)) \<and>
   trace dexWorld = [HttpGet (str ''https://repo/demo.cs3''), BridgeHealth,
              BridgeLoad (str ''/plugins/Demo'') (str ''Demo'') demoRepo] \<and>
   map MainAPI.name (apis dexWorld) = [str ''Demo''] \<and>
   getStoredPlugins dexWorld = [demoRecord 1 True] \<and>
   apis (unloadPlugin (str ''Demo'') dexWorld) = [] \<and>
   getStoredPlugins (unloadPlugin (str ''Demo'') dexWorld) = [demoRecord 1 False] \<and>
   trace (unloadPlugin (str ''Demo'') dexWorld) = trace dexWorld \<and>
   trace (bridgeUnloadPlugin (str ''Demo'') dexWorld) = trace dexWorld"
  unfolding dexWorld_def dexWorld_eq
  by (simp add: unloadPlugin_def getStoredPlugins_def demoRecord_def getApi_def removePlugin_def
      savePluginMetadata_def bridgeUnloadPlugin_def Let_def)

section \<open>unloadPlugin and a plugin installed from a second repository\<close>

lemma scriptEnv_download:
  "downloadPlugin scriptEnv (SitePlugin.url (demoPlugin v)) w =
   (Some (Text (str ''x=1'')), w\<lparr>trace := trace w @ [HttpGet (str ''https://repo/demo.cs3'')]\<rparr>)"
proof -
  have "\<not> binaryContentType (str ''text/plain'')"
    by (simp add: binaryContentType_def str_def startsWith_def)
  moreover have "codeUnits [0x78, 0x3D, 0x31] = str ''x=1''"
    by (simp add: codeUnits_def str_def)
  ultimately show ?thesis
    by (simp add: downloadPlugin_def scriptEnv_def demoEnv_def sourceResponse_def Let_def
        demoPlugin_def)
qed

lemma script_not_binary: "\<not> isBinary False (str ''x=1'')"
  by (simp add: isBinary_def startsWith_def str_def binaryChar_def)

lemma scriptEnv_install:
  assumes "getApi (str ''Demo'') (apis w) = None"
    and "getStoredPluginCode (str ''Demo'') repo w = None"
  shows "loadPlugin scriptEnv (demoPlugin v) repo w =
    (\<lparr>success = True, error = None\<rparr>,
     savePluginMetadata ((demoRecord v True)\<lparr>repositoryUrl := repo\<rparr>)
       (w\<lparr>localStorage := (localStorage w)(codeKey (str ''Demo'') repo \<mapsto> str ''x=1''),
          trace := trace w @ [HttpGet (str ''https://repo/demo.cs3''), RunCode (str ''x=1'')],
          apis := addPlugin (demoApi\<lparr>ident := nextIdent w\<rparr>) (apis w),
          nextIdent := Suc (nextIdent w)\<rparr>))"
proof -
  have n: "SitePlugin.internalName (demoPlugin v) = str ''Demo''"
    by (simp add: demoPlugin_def)
  have ne: "Text (str ''x=1'') \<noteq> Text []"
    by (simp add: str_def)
  have dec: "decodeDownloaded (spreadLimit scriptEnv) (Text (str ''x=1'')) = Some (str ''x=1'', False)"
    by (simp add: decodeDownloaded_def)
  have "loadPlugin scriptEnv (demoPlugin v) repo w =
        loadCode scriptEnv (demoPlugin v) repo (str ''x=1'') False
          (storePluginCode (SitePlugin.internalName (demoPlugin v)) repo (str ''x=1'')
             (w\<lparr>trace := trace w @ [HttpGet (str ''https://repo/demo.cs3'')]\<rparr>))"
    using assms by (intro loadPlugin_fresh [OF _ _ scriptEnv_download ne dec]) (simp_all add: n)
  also have "\<dots> = (\<lparr>success = True, error = None\<rparr>,
     savePluginMetadata ((demoRecord v True)\<lparr>repositoryUrl := repo\<rparr>)
       (w\<lparr>localStorage := (localStorage w)(codeKey (str ''Demo'') repo \<mapsto> str ''x=1''),
          trace := trace w @ [HttpGet (str ''https://repo/demo.cs3''), RunCode (str ''x=1'')],
          apis := addPlugin (demoApi\<lparr>ident := nextIdent w\<rparr>) (apis w),
          nextIdent := Suc (nextIdent w)\<rparr>))"
    by (simp add: loadCode_def script_not_binary storePluginCode_def Let_def n)
       (simp add: scriptEnv_def demoEnv_def demoApi_def demoRecord_def demoPlugin_def)
  finally show ?thesis .
qed

lemma twoRepoWorld_eq:
  "apis twoRepoWorld = [demoApi\<lparr>ident := 1\<rparr>] \<and>
   getStoredPlugins twoRepoWorld =
     [demoRecord 1 False, (demoRecord 1 True)\<lparr>repositoryUrl := otherRepo\<rparr>]"
proof -
  have ne: "str ''Demo'' \<noteq> []" "demoRepo \<noteq> otherRepo"
    by (simp_all add: str_def demoRepo_def otherRepo_def)
  have key: "codeKey (str ''Demo'') otherRepo \<noteq> codeKey (str ''Demo'') demoRepo"
    using ne by (simp add: codeKey_def)
  have 1: "snd (loadPlugin scriptEnv (demoPlugin 1) demoRepo emptyWorld) =
     emptyWorld\<lparr>trace := [HttpGet (str ''https://repo/demo.cs3''), RunCode (str ''x=1'')],
          localStorage := [codeKey (str ''Demo'') demoRepo \<mapsto> str ''x=1''],
          apis := [demoApi], nextIdent := 1, storedPlugins := Some [demoRecord 1 True]\<rparr>"
    by (subst scriptEnv_install)
       (simp_all add: getApi_def getStoredPluginCode_def emptyWorld_def savePluginMetadata_def
          getStoredPlugins_def addPlugin_def demoApi_def demoRecord_def Let_def)
  have 2: "unloadPlugin (str ''Demo'')
      (emptyWorld\<lparr>trace := [HttpGet (str ''https://repo/demo.cs3''), RunCode (str ''x=1'')],
          localStorage := [codeKey (str ''Demo'') demoRepo \<mapsto> str ''x=1''],
          apis := [demoApi], nextIdent := 1, storedPlugins := Some [demoRecord 1 True]\<rparr>) =
     emptyWorld\<lparr>trace := [HttpGet (str ''https://repo/demo.cs3''), RunCode (str ''x=1'')],
          localStorage := [codeKey (str ''Demo'') demoRepo \<mapsto> str ''x=1''],
          apis := [], nextIdent := 1, storedPlugins := Some [demoRecord 1 False]\<rparr>"
    by (simp add: unloadPlugin_def getStoredPlugins_def demoRecord_def getApi_def demoApi_def
        removePlugin_def savePluginMetadata_def Let_def emptyWorld_def)
  have 3: "snd (loadPlugin scriptEnv (demoPlugin 1) otherRepo
      (emptyWorld\<lparr>trace := [HttpGet (str ''https://repo/demo.cs3''), RunCode (str ''x=1'')],
          localStorage := [codeKey (str ''Demo'') demoRepo \<mapsto> str ''x=1''],
          apis := [], nextIdent := 1, storedPlugins := Some [demoRecord 1 False]\<rparr>)) =
     emptyWorld\<lparr>trace := [HttpGet (str ''https://repo/demo.cs3''), RunCode (str ''x=1''),
                   HttpGet (str ''https://repo/demo.cs3''), RunCode (str ''x=1'')],
          localStorage := [codeKey (str ''Demo'') demoRepo \<mapsto> str ''x=1'',
                           codeKey (str ''Demo'') otherRepo \<mapsto> str ''x=1''],
          apis := [demoApi\<lparr>ident := 1\<rparr>], nextIdent := 2,
          storedPlugins := Some [demoRecord 1 False,
                                 (demoRecord 1 True)\<lparr>repositoryUrl := otherRepo\<rparr>]\<rparr>"
    using key ne
    by (subst scriptEnv_install)
       (simp_all add: getApi_def getStoredPluginCode_def emptyWorld_def savePluginMetadata_def
          getStoredPlugins_def addPlugin_def demoApi_def demoRecord_def Let_def)
  show ?thesis
    unfolding twoRepoWorld_def 1 2 3
    by (simp add: getStoredPlugins_def emptyWorld_def)
qed


text \<open>
  Claim C9 at a failing input.  The plugin was installed from one repository,
  uninstalled, and installed again from another, so two records carry its name.
  unloadPlugin looks the record up by name alone and finds the first, while
  savePluginMetadata keys records by name and repository: after one call and after two
  the handle is gone, and the record of the installed plugin still says \<open>enabled\<close>.
\<close>

theorem unloadPlugin_leaves_installed_record_enabled:
  "map MainAPI.name (apis twoRepoWorld) = [str ''Demo''] \<and>
   getStoredPlugins twoRepoWorld =
     [demoRecord 1 False, (demoRecord 1 True)\<lparr>repositoryUrl := otherRepo\<rparr>] \<and>
   apis (unloadPlugin (str ''Demo'') twoRepoWorld) = [] \<and>
   getStoredPlugins (unloadPlugin (str ''Demo'') twoRepoWorld) =
     [demoRecord 1 False, (demoRecord 1 True)\<lparr>repositoryUrl := otherRepo\<rparr>] \<and>
   getStoredPlugins (unloadPlugin (str ''Demo'') (unloadPlugin (str ''Demo'') twoRepoWorld)) =
     [demoRecord 1 False, (demoRecord 1 True)\<lparr>repositoryUrl := otherRepo\<rparr>] \<and>
   map enabled (getStoredPlugins (unloadPlugin (str ''Demo'') (unloadPlugin (str ''Demo'') twoRepoWorld))) =
     [False, True]"
proof -
  have ne: "demoRepo \<noteq> otherRepo"
    by (simp add: str_def demoRepo_def otherRepo_def)
  have u: "\<And>w :: (nat, nat) world. getStoredPlugins w =
        [demoRecord 1 False, (demoRecord 1 True)\<lparr>repositoryUrl := otherRepo\<rparr>] \<Longrightarrow>
      getStoredPlugins (unloadPlugin (str ''Demo'') w) =
        [demoRecord 1 False, (demoRecord 1 True)\<lparr>repositoryUrl := otherRepo\<rparr>]"
    by (simp add: unloadPlugin_def savePluginMetadata_def Let_def demoRecord_def
        split: option.split)
       (simp add: getStoredPlugins_def)
  have a: "apis (unloadPlugin (str ''Demo'') twoRepoWorld) = []"
    using twoRepoWorld_eq
    by (simp add: unloadPlugin_def savePluginMetadata_def Let_def demoRecord_def getApi_def
        demoApi_def removePlugin_def)
  from twoRepoWorld_eq u a show ?thesis
    by (simp add: demoApi_def demoRecord_def)
qed

end
